theory Spec2Isabelle
  imports Main
begin

section \<open>Values, errors and the client object\<close>

text \<open>
  The client of \<^verbatim>\<open>src/index.ts\<close> is a class with six private fields and a set of
  \<^verbatim>\<open>async\<close> methods. Every method is modelled as a function that takes the client
  and returns the client together with either the thrown error or the returned value.

  Errors thrown by the source itself are all \<^verbatim>\<open>new Error(message)\<close>; the two other
  constructors stand for what the runtime throws (a rejected \<^verbatim>\<open>fetch\<close>, a body that is
  not JSON, a property read on \<^verbatim>\<open>null\<close>).
\<close>

datatype error = Error string | TypeError string | SyntaxError string

text \<open>
  A value that is \<^verbatim>\<open>string | null | undefined\<close> is a \<open>string option\<close>. JavaScript's
  truthiness on such a value: \<^verbatim>\<open>null\<close>, \<^verbatim>\<open>undefined\<close> and the empty string are falsy.
\<close>

definition truthy :: "string option \<Rightarrow> bool" where
  "truthy v = (case v of None \<Rightarrow> False | Some s \<Rightarrow> s \<noteq> [])"

text \<open>
  The result of reading a property of one of the \<^verbatim>\<open>states\<close> object literals, and of
  the \<^verbatim>\<open>??\<close> chains built on it. \<open>Inherited k\<close> is the member \<open>k\<close> that an object
  literal inherits from \<^verbatim>\<open>Object.prototype\<close>: it is neither a string nor nullish.
\<close>

datatype jsval = Undefined | Null | Str string | Inherited string

definition object_prototype_keys :: "string list" where
  "object_prototype_keys =
     [''constructor'', ''__defineGetter__'', ''__defineSetter__'', ''hasOwnProperty'',
      ''__lookupGetter__'', ''__lookupSetter__'', ''isPrototypeOf'',
      ''propertyIsEnumerable'', ''toString'', ''valueOf'', ''__proto__'',
      ''toLocaleString'']"

text \<open>
  \<^verbatim>\<open>states[key]\<close> for an object literal with the own properties \<open>own\<close>. A \<^verbatim>\<open>null\<close>
  key is converted to the property name \<^verbatim>\<open>"null"\<close>.
\<close>

definition property :: "(string \<times> string) list \<Rightarrow> string option \<Rightarrow> jsval" where
  "property own key =
     (let k = (case key of None \<Rightarrow> ''null'' | Some s \<Rightarrow> s)
      in case map_of own k of
           Some v \<Rightarrow> Str v
         | None \<Rightarrow> if k \<in> set object_prototype_keys then Inherited k else Undefined)"

text \<open>\<^verbatim>\<open>a ?? b\<close>: the right operand is taken when the left one is nullish.\<close>

definition nullish :: "jsval \<Rightarrow> jsval \<Rightarrow> jsval" where
  "nullish a b = (case a of Undefined \<Rightarrow> b | Null \<Rightarrow> b | _ \<Rightarrow> a)"

text \<open>A value received from the server, of declared type string, that may be \<^verbatim>\<open>null\<close>.\<close>

definition received :: "string option \<Rightarrow> jsval" where
  "received v = (case v of None \<Rightarrow> Null | Some s \<Rightarrow> Str s)"

text \<open>The codes the claims speak of: non-empty strings of decimal digits.\<close>

definition numeric_code :: "string \<Rightarrow> bool" where
  "numeric_code s = (s \<noteq> [] \<and> list_all (\<lambda>c. c \<in> set ''0123456789'') s)"

subsection \<open>The three state tables\<close>

text \<open>
  The \<^verbatim>\<open>states\<close> literal and the expression that reads it, in \<^verbatim>\<open>getSessionIdState\<close>
  (\<^verbatim>\<open>states[data] ?? 'unknown'\<close>), \<^verbatim>\<open>_getFileState\<close>
  (\<^verbatim>\<open>states[fileState] ?? fileState ?? 'unknown'\<close>) and \<^verbatim>\<open>_getFileRevokeState\<close>
  (\<^verbatim>\<open>states[fileState] ?? 'unknown'\<close>).
\<close>

definition session_states :: "(string \<times> string) list" where
  "session_states =
     [(''0'', ''loggedOut''), (''1'', ''scanned''), (''2'', ''loggedIn''),
      (''3'', ''failed''), (''4'', ''expired'')]"

definition session_state :: "string option \<Rightarrow> jsval" where
  "session_state data = nullish (property session_states data) (Str ''unknown'')"

definition file_states :: "(string \<times> string) list" where
  "file_states = [(''1'', ''pending''), (''2'', ''uploaded''), (''3'', ''uploaded'')]"

definition file_state :: "string option \<Rightarrow> jsval" where
  "file_state fileState =
     nullish (nullish (property file_states fileState) (received fileState)) (Str ''unknown'')"

definition revoke_states :: "(string \<times> string) list" where
  "revoke_states = [(''1'', ''pending''), (''2'', ''revoked'')]"

definition revoke_state :: "string option \<Rightarrow> jsval" where
  "revoke_state fileState = nullish (property revoke_states fileState) (Str ''unknown'')"

section \<open>Requests and responses\<close>

text \<open>
  A request as \<^verbatim>\<open>fetch\<close> receives it. The query string built by
  \<^verbatim>\<open>URLSearchParams\<close> is kept as the list of its pairs (its percent-encoding is not
  modelled), a JSON body as the list of its members. \<open>Num n\<close> stands for the decimal text
  of \<open>n\<close>, \<open>Bool b\<close> for \<^verbatim>\<open>true\<close>/\<^verbatim>\<open>false\<close>. A request whose options name no method has
  the default of \<^verbatim>\<open>fetch\<close>, \<open>''GET''\<close>.
\<close>

datatype param = Text string | Num int | Bool bool | Texts "string list"

datatype payload = NoBody | Json "(string \<times> param) list" | Raw string

record request =
  url :: string
  query :: "(string \<times> param) list"
  http_method :: string
  headers :: "(string \<times> string) list"
  body :: payload

text \<open>
  \<^verbatim>\<open>UhaleResponse<T>\<close> of \<^verbatim>\<open>types.ts\<close>. Values have the types \<^verbatim>\<open>types.ts\<close> declares;
  a value that the code itself tests for absence (\<^verbatim>\<open>!x\<close>, \<^verbatim>\<open>x && y\<close>, \<^verbatim>\<open>x ?? y\<close>) is an
  option, \<open>None\<close> being \<^verbatim>\<open>null\<close> or \<^verbatim>\<open>undefined\<close>.
\<close>

record 'a UhaleResponse =
  errorCode :: "string option"
  errorMsg :: string
  data :: 'a

text \<open>
  What the two awaits of \<^verbatim>\<open>_callApi\<close> yield: either the parsed envelope, or the error
  thrown on the way (\<^verbatim>\<open>fetch\<close> rejects, the body is not JSON, the body is not an object).
\<close>

datatype 'a fetched = Rejects error | Replies "'a UhaleResponse"

text \<open>\<^verbatim>\<open>UhaleLogin\<close>: \<^verbatim>\<open>expireAt\<close>, \<^verbatim>\<open>userToken\<close> (\<^verbatim>\<open>userInfo\<close> is never read).\<close>

datatype UhaleLogin = UhaleLogin string string

text \<open>\<^verbatim>\<open>UhalePresignedUrl\<close>: \<^verbatim>\<open>awsUploadUrl\<close>, \<^verbatim>\<open>fileUrl\<close>, \<^verbatim>\<open>fileId\<close>.\<close>

datatype UhalePresignedUrl = UhalePresignedUrl string string string

text \<open>
  \<^verbatim>\<open>UhaleUser\<close>. \<open>expiresAt\<close> holds the argument of \<^verbatim>\<open>Number(data.expireAt)\<close>: the
  conversion to a floating-point number is not modelled.
\<close>

record UhaleUser =
  token :: string
  expiresAt :: string

text \<open>\<^verbatim>\<open>UhaleOptions\<close>: \<^verbatim>\<open>apiUrl\<close>, \<^verbatim>\<open>userUrl\<close>, \<^verbatim>\<open>secretKey\<close>, \<^verbatim>\<open>accessKey\<close>, all optional.\<close>

datatype UhaleOptions = UhaleOptions "string option" "string option" "string option" "string option"

text \<open>
  The class. \<open>sent\<close> is not a field of the source: it records, in order, every request
  the client has handed to \<^verbatim>\<open>fetch\<close>.
\<close>

record uhale =
  apiUrl :: string
  userUrl :: string
  secretKey :: string
  accessKey :: string
  sessionId :: "string option"
  user :: "UhaleUser option"
  sent :: "request list"

definition default :: "string option \<Rightarrow> string \<Rightarrow> string" where
  "default v d = (case v of None \<Rightarrow> d | Some s \<Rightarrow> s)"

definition Uhale :: "UhaleOptions option \<Rightarrow> uhale" where
  "Uhale options =
     (case (case options of None \<Rightarrow> UhaleOptions None None None None | Some given \<Rightarrow> given) of
        UhaleOptions a u s k \<Rightarrow>
          \<lparr>apiUrl = default a ''https://whalephoto.zeasn.tv/photo/api/v1/web'',
           userUrl = default u ''https://saas.zeasn.tv'',
           secretKey = default s ''10f0e356f1d0e64b18b1d02535dc45fb86'',
           accessKey = default k ''12d2f87794d58c4044a7e9d8069a955b70'',
           sessionId = None, user = None, sent = []\<rparr>)"

section \<open>The transport\<close>

text \<open>
  \<^verbatim>\<open>_callApi\<close>. \<open>respond\<close> is the part after the awaits, \<open>send\<close> the call of \<^verbatim>\<open>fetch\<close>.
  The answer of the server is a parameter of every method that calls the API.
\<close>

definition respond :: "'a fetched \<Rightarrow> error + 'a" where
  "respond answer =
     (case answer of
        Rejects e \<Rightarrow> Inl e
      | Replies response \<Rightarrow>
          if truthy (errorCode response) \<and> errorCode response \<noteq> Some ''0''
          then Inl (Error (default (errorCode response) ''undefined'' @ '': '' @ errorMsg response))
          else Inr (data response))"

definition send :: "request \<Rightarrow> uhale \<Rightarrow> uhale" where
  "send req u = u\<lparr>sent := sent u @ [req]\<rparr>"

definition priv_callApi :: "request \<Rightarrow> 'a fetched \<Rightarrow> uhale \<Rightarrow> (error + 'a) \<times> uhale" where
  "priv_callApi req answer u = (respond answer, send req u)"

section \<open>The session\<close>

definition no_session_id :: error where
  "no_session_id = Error ''no session id''"

text \<open>\<^verbatim>\<open>_getSessionId(userToken?)\<close>.\<close>

definition getSessionId_request :: "string option \<Rightarrow> uhale \<Rightarrow> request" where
  "getSessionId_request userToken u =
     (if truthy userToken
      then \<lparr>url = apiUrl u @ ''/getSessionId'',
            query = [(''userToken'', Text (default userToken []))],
            http_method = ''GET'', headers = [(''sessionId'', default (sessionId u) [])],
            body = NoBody\<rparr>
      else \<lparr>url = apiUrl u @ ''/sessionId'', query = [],
            http_method = ''GET'', headers = [(''sessionId'', default (sessionId u) [])],
            body = NoBody\<rparr>)"

definition priv_getSessionId ::
  "string option \<Rightarrow> string option fetched \<Rightarrow> uhale \<Rightarrow> (error + unit) \<times> uhale" where
  "priv_getSessionId userToken answer u =
     (case priv_callApi (getSessionId_request userToken u) answer u of
        (Inl e, u') \<Rightarrow> (Inl e, u')
      | (Inr d, u') \<Rightarrow> (Inr (), u'\<lparr>sessionId := d\<rparr>))"

text \<open>
  \<^verbatim>\<open>getSessionIdState\<close>, split at its await: the check and the request, then the result.
\<close>

definition getSessionIdState_request :: "uhale \<Rightarrow> error + request" where
  "getSessionIdState_request u =
     (if \<not> truthy (sessionId u) then Inl no_session_id
      else Inr \<lparr>url = apiUrl u @ ''/sessionIdState'',
                query = [(''sessionId'', Text (default (sessionId u) []))],
                http_method = ''GET'', headers = [(''sessionId'', default (sessionId u) [])],
                body = NoBody\<rparr>)"

definition getSessionIdState_result :: "string option fetched \<Rightarrow> error + jsval" where
  "getSessionIdState_result answer =
     (case respond answer of Inl e \<Rightarrow> Inl e | Inr d \<Rightarrow> Inr (session_state d))"

definition getSessionIdState :: "string option fetched \<Rightarrow> uhale \<Rightarrow> (error + jsval) \<times> uhale" where
  "getSessionIdState answer u =
     (case getSessionIdState_request u of
        Inl e \<Rightarrow> (Inl e, u)
      | Inr req \<Rightarrow> (getSessionIdState_result answer, send req u))"

text \<open>
  \<^verbatim>\<open>_generateSignedToken\<close>. The keyed hash (HMAC-SHA1, base64) and the text of
  \<^verbatim>\<open>Date.now()\<close> are parameters.
\<close>

definition priv_generateSignedToken ::
  "(string \<Rightarrow> string \<Rightarrow> string) \<Rightarrow> string \<Rightarrow> string \<Rightarrow> uhale \<Rightarrow> string" where
  "priv_generateSignedToken hmac timestamp path u =
     accessKey u @ '':'' @ hmac (secretKey u) (path @ timestamp) @ '':'' @ timestamp"

text \<open>\<^verbatim>\<open>_login\<close>.\<close>

definition login_request ::
  "(string \<Rightarrow> string \<Rightarrow> string) \<Rightarrow> string \<Rightarrow> string \<Rightarrow> string \<Rightarrow> uhale \<Rightarrow> request" where
  "login_request hmac timestamp email password u =
     \<lparr>url = userUrl u @ ''/user/device/login'',
      query = [(''email'', Text email), (''pwd'', Text password)],
      http_method = ''POST'',
      headers = [(''brandId'', ''7''), (''productId'', ''855''),
                 (''sessionId'', default (sessionId u) []),
                 (''authorization'',
                  priv_generateSignedToken hmac timestamp ''/user/device/login'' u)],
      body = NoBody\<rparr>"

definition priv_login ::
  "(string \<Rightarrow> string \<Rightarrow> string) \<Rightarrow> string \<Rightarrow> string \<Rightarrow> string \<Rightarrow> UhaleLogin fetched \<Rightarrow> uhale
     \<Rightarrow> (error + unit) \<times> uhale" where
  "priv_login hmac timestamp email password answer u =
     (if \<not> truthy (sessionId u) then (Inl no_session_id, u)
      else case priv_callApi (login_request hmac timestamp email password u) answer u of
             (Inl e, u') \<Rightarrow> (Inl e, u')
           | (Inr (UhaleLogin expireAt userToken), u') \<Rightarrow>
               (Inr (), u'\<lparr>user := Some \<lparr>token = userToken, expiresAt = expireAt\<rparr>\<rparr>))"

text \<open>
  \<^verbatim>\<open>login\<close>. The arguments are options, \<open>None\<close> being a call that passes \<^verbatim>\<open>undefined\<close>
  or \<^verbatim>\<open>null\<close>. The three answers are those of the server to the three calls, in order;
  an answer is read only when its call is made. \<^verbatim>\<open>this.user!.token\<close> reads the user that
  \<^verbatim>\<open>_login\<close> has just stored.
\<close>

definition email_and_password_are_required :: error where
  "email_and_password_are_required = Error ''email and password are required''"

definition login ::
  "(string \<Rightarrow> string \<Rightarrow> string) \<Rightarrow> string \<Rightarrow> string option \<Rightarrow> string option
     \<Rightarrow> string option fetched \<Rightarrow> UhaleLogin fetched \<Rightarrow> string option fetched \<Rightarrow> uhale
     \<Rightarrow> (error + unit) \<times> uhale" where
  "login hmac timestamp email password answer1 answer2 answer3 u =
     (if \<not> truthy email \<or> \<not> truthy password then (Inl email_and_password_are_required, u)
      else case priv_getSessionId None answer1 u of
             (Inl e, u1) \<Rightarrow> (Inl e, u1)
           | (Inr _, u1) \<Rightarrow>
               (case priv_login hmac timestamp (default email []) (default password []) answer2 u1 of
                  (Inl e, u2) \<Rightarrow> (Inl e, u2)
                | (Inr _, u2) \<Rightarrow>
                    (case user u2 of
                       None \<Rightarrow> (Inl (TypeError ''user is null''), u2)
                     | Some usr \<Rightarrow> priv_getSessionId (Some (token usr)) answer3 u2)))"

section \<open>Files and terminals\<close>

text \<open>
  \<^verbatim>\<open>getPresignedUrl\<close>. \<open>t\<close> is the text of \<^verbatim>\<open>Date.now() / 1000 + randomUUID()\<close>.
\<close>

definition getPresignedUrl_request ::
  "string \<Rightarrow> bool \<Rightarrow> int \<Rightarrow> string \<Rightarrow> bool option \<Rightarrow> uhale \<Rightarrow> request" where
  "getPresignedUrl_request t isImage fileSize terminalId offlineStorage u =
     \<lparr>url = apiUrl u @ ''/presignedUrl'',
      query = [(''filenameExtension'', Text (if isImage then ''.jpg'' else ''.mp4'')),
               (''fileSize'', Num fileSize),
               (''terminalId'', Text terminalId),
               (''offlineStorage'',
                Bool (case offlineStorage of None \<Rightarrow> False | Some b \<Rightarrow> b)),
               (''_t'', Text t)],
      http_method = ''GET'', headers = [(''sessionId'', default (sessionId u) [])],
      body = NoBody\<rparr>"

definition getPresignedUrl ::
  "string \<Rightarrow> bool \<Rightarrow> int \<Rightarrow> string \<Rightarrow> bool option \<Rightarrow> UhalePresignedUrl fetched \<Rightarrow> uhale
     \<Rightarrow> (error + UhalePresignedUrl) \<times> uhale" where
  "getPresignedUrl t isImage fileSize terminalId offlineStorage answer u =
     (if \<not> truthy (sessionId u) then (Inl no_session_id, u)
      else priv_callApi
             (getPresignedUrl_request t isImage fileSize terminalId offlineStorage u) answer u)"

text \<open>\<^verbatim>\<open>saveUploadedFile\<close>.\<close>

definition saveUploadedFile_request ::
  "string \<Rightarrow> string \<Rightarrow> string \<Rightarrow> int \<Rightarrow> string \<Rightarrow> uhale \<Rightarrow> request" where
  "saveUploadedFile_request fileUrl fileId subject fileSize terminalId u =
     \<lparr>url = apiUrl u @ ''/file'', query = [], http_method = ''POST'',
      headers = [(''sessionId'', default (sessionId u) []),
                 (''content-type'', ''application/json'')],
      body = Json [(''fileUrl'', Text fileUrl), (''fileId'', Text fileId),
                   (''fileSize'', Num fileSize), (''subject'', Text subject),
                   (''terminalId'', Text terminalId)]\<rparr>"

definition saveUploadedFile ::
  "string \<Rightarrow> string \<Rightarrow> string \<Rightarrow> int \<Rightarrow> string \<Rightarrow> string fetched \<Rightarrow> uhale
     \<Rightarrow> (error + unit) \<times> uhale" where
  "saveUploadedFile fileUrl fileId subject fileSize terminalId answer u =
     (if \<not> truthy (sessionId u) then (Inl no_session_id, u)
      else case priv_callApi
                  (saveUploadedFile_request fileUrl fileId subject fileSize terminalId u) answer u of
             (Inl e, u') \<Rightarrow> (Inl e, u')
           | (Inr _, u') \<Rightarrow> (Inr (), u'))"

text \<open>
  \<^verbatim>\<open>_getFileState\<close>, split at its await. The data of the answer is the list of
  \<^verbatim>\<open>Object.entries\<close>: file identifier and code.
\<close>

definition getFileState_request :: "string list \<Rightarrow> uhale \<Rightarrow> error + request" where
  "getFileState_request fileIds u =
     (if \<not> truthy (sessionId u) then Inl no_session_id
      else Inr \<lparr>url = apiUrl u @ ''/getFileState'', query = [], http_method = ''POST'',
                headers = [(''sessionId'', default (sessionId u) []),
                           (''content-type'', ''application/json'')],
                body = Json [(''fileIds'', Texts fileIds)]\<rparr>)"

definition getFileState_result ::
  "(string \<times> string option) list fetched \<Rightarrow> error + (string \<times> jsval) list" where
  "getFileState_result answer =
     (case respond answer of
        Inl e \<Rightarrow> Inl e
      | Inr entries \<Rightarrow> Inr (map (\<lambda>(fileId, fileState). (fileId, file_state fileState)) entries))"

definition priv_getFileState ::
  "string list \<Rightarrow> (string \<times> string option) list fetched \<Rightarrow> uhale
     \<Rightarrow> (error + (string \<times> jsval) list) \<times> uhale" where
  "priv_getFileState fileIds answer u =
     (case getFileState_request fileIds u of
        Inl e \<Rightarrow> (Inl e, u)
      | Inr req \<Rightarrow> (getFileState_result answer, send req u))"

text \<open>\<^verbatim>\<open>revokeFiles\<close>.\<close>

definition revokeFiles_request :: "string \<Rightarrow> string list \<Rightarrow> uhale \<Rightarrow> request" where
  "revokeFiles_request terminalId fileIds u =
     \<lparr>url = apiUrl u @ ''/revoke'', query = [], http_method = ''POST'',
      headers = [(''sessionId'', default (sessionId u) []),
                 (''content-type'', ''application/json'')],
      body = Json [(''terminalId'', Text terminalId), (''fileIds'', Texts fileIds),
                   (''offlineStorage'', Bool False)]\<rparr>"

definition revokeFiles ::
  "string \<Rightarrow> string list \<Rightarrow> string list fetched \<Rightarrow> uhale \<Rightarrow> (error + string list) \<times> uhale" where
  "revokeFiles terminalId fileIds answer u =
     (if \<not> truthy (sessionId u) then (Inl no_session_id, u)
      else priv_callApi (revokeFiles_request terminalId fileIds u) answer u)"

text \<open>\<^verbatim>\<open>_getFileRevokeState\<close>, split at its await. \<open>join\<close> is \<^verbatim>\<open>fileIds.join(',')\<close>.\<close>

fun join :: "string list \<Rightarrow> string" where
  "join [] = []"
| "join [x] = x"
| "join (x # y # ys) = x @ '','' @ join (y # ys)"

definition getFileRevokeState_request :: "string list \<Rightarrow> uhale \<Rightarrow> error + request" where
  "getFileRevokeState_request fileIds u =
     (if \<not> truthy (sessionId u) then Inl no_session_id
      else Inr \<lparr>url = apiUrl u @ ''/revoke'', query = [(''fileIds'', Text (join fileIds))],
                http_method = ''GET'', headers = [(''sessionId'', default (sessionId u) [])],
                body = NoBody\<rparr>)"

definition getFileRevokeState_result ::
  "(string \<times> string option) list fetched \<Rightarrow> error + (string \<times> jsval) list" where
  "getFileRevokeState_result answer =
     (case respond answer of
        Inl e \<Rightarrow> Inl e
      | Inr entries \<Rightarrow> Inr (map (\<lambda>(fileId, fileState). (fileId, revoke_state fileState)) entries))"

definition priv_getFileRevokeState ::
  "string list \<Rightarrow> (string \<times> string option) list fetched \<Rightarrow> uhale
     \<Rightarrow> (error + (string \<times> jsval) list) \<times> uhale" where
  "priv_getFileRevokeState fileIds answer u =
     (case getFileRevokeState_request fileIds u of
        Inl e \<Rightarrow> (Inl e, u)
      | Inr req \<Rightarrow> (getFileRevokeState_result answer, send req u))"

text \<open>\<^verbatim>\<open>getTerminals\<close>. The type of a terminal is a parameter: no field of it is read.\<close>

definition getTerminals_request :: "uhale \<Rightarrow> request" where
  "getTerminals_request u =
     \<lparr>url = apiUrl u @ ''/terminal'', query = [], http_method = ''GET'',
      headers = [(''sessionId'', default (sessionId u) [])], body = NoBody\<rparr>"

definition getTerminals :: "'t list fetched \<Rightarrow> uhale \<Rightarrow> (error + 't list) \<times> uhale" where
  "getTerminals answer u =
     (if \<not> truthy (sessionId u) then (Inl no_session_id, u)
      else priv_callApi (getTerminals_request u) answer u)"

section \<open>Polling\<close>

text \<open>
  The three \<^verbatim>\<open>waitFor\<dots>\<close> methods create a promise, start an interval timer of 3000 ms
  on a closure, and call the closure once. The closure increments \<^verbatim>\<open>attempts\<close>, calls
  the probe and awaits it; when the probe's promise settles, it decides.

  The state of one such operation: the counter, whether the interval timer is still set,
  how many probes are awaited, the state of the returned promise (a promise settles once:
  later calls of \<^verbatim>\<open>resolve\<close> and \<^verbatim>\<open>reject\<close> have no effect), and the client.
\<close>

datatype settlement = Resolved | Rejected error

record poll =
  attempts :: int
  interval :: bool
  outstanding :: nat
  promise :: "settlement option"
  client :: uhale

text \<open>
  \<^verbatim>\<open>maxAttempts\<close> is a JavaScript number: an integer or \<^verbatim>\<open>Infinity\<close>, the default of two
  of the methods (fractions and \<^verbatim>\<open>NaN\<close> are not modelled). \<open>at_least a m\<close> is
  \<^verbatim>\<open>attempts >= maxAttempts\<close>.
\<close>

datatype number = Finite int | Infinity

fun at_least :: "int \<Rightarrow> number \<Rightarrow> bool" where
  "at_least a (Finite n) = (a \<ge> n)"
| "at_least a Infinity = False"

definition clearInterval :: "poll \<Rightarrow> poll" where
  "clearInterval p = p\<lparr>interval := False\<rparr>"

definition resolve :: "poll \<Rightarrow> poll" where
  "resolve p = (if promise p = None then p\<lparr>promise := Some Resolved\<rparr> else p)"

definition reject :: "error \<Rightarrow> poll \<Rightarrow> poll" where
  "reject e p = (if promise p = None then p\<lparr>promise := Some (Rejected e)\<rparr> else p)"

definition polling_timeout :: error where
  "polling_timeout = Error ''Polling timeout''"

text \<open>
  The closure up to its await: \<^verbatim>\<open>attempts++\<close> and the call of the probe. A probe that
  throws before its own await (no session identifier) sends nothing, and the closure's
  \<^verbatim>\<open>catch\<close> runs before any timer can fire; otherwise the request is sent and the closure
  is suspended.
\<close>

definition call_probe :: "(uhale \<Rightarrow> error + request) \<Rightarrow> poll \<Rightarrow> poll" where
  "call_probe probe_request p =
     (let p1 = p\<lparr>attempts := attempts p + 1\<rparr>
      in case probe_request (client p1) of
           Inl e \<Rightarrow> reject e (clearInterval p1)
         | Inr req \<Rightarrow> p1\<lparr>outstanding := Suc (outstanding p1), client := send req (client p1)\<rparr>)"

text \<open>
  A value inside a template literal. Only strings reach one in the source; an inherited
  member is rendered by its name.
\<close>

fun template :: "jsval \<Rightarrow> string" where
  "template (Str s) = s"
| "template Undefined = ''undefined''"
| "template Null = ''null''"
| "template (Inherited k) = k"

text \<open>The closures after their await, \<open>probed\<close> being what the await yields or throws.\<close>

definition checkSessionIdState :: "number \<Rightarrow> error + jsval \<Rightarrow> poll \<Rightarrow> poll" where
  "checkSessionIdState maxAttempts probed p =
     (case probed of
        Inl e \<Rightarrow> reject e (clearInterval p)
      | Inr sessionIdState \<Rightarrow>
          if sessionIdState = Str ''loggedIn'' then resolve (clearInterval p)
          else if sessionIdState = Str ''failed'' \<or> sessionIdState = Str ''expired'' then
            reject (Error (''Login '' @ template sessionIdState)) (clearInterval p)
          else if at_least (attempts p) maxAttempts then
            reject polling_timeout (clearInterval p)
          else p)"

definition checkFileStates_uploaded ::
  "number \<Rightarrow> error + (string \<times> jsval) list \<Rightarrow> poll \<Rightarrow> poll" where
  "checkFileStates_uploaded maxAttempts probed p =
     (case probed of
        Inl e \<Rightarrow> reject e (clearInterval p)
      | Inr fileStates \<Rightarrow>
          if list_all (\<lambda>(fileId, fileState). fileState = Str ''uploaded'') fileStates then
            resolve (clearInterval p)
          else if at_least (attempts p) maxAttempts then
            reject polling_timeout (clearInterval p)
          else p)"

definition checkFileStates_revoked ::
  "number \<Rightarrow> error + (string \<times> jsval) list \<Rightarrow> poll \<Rightarrow> poll" where
  "checkFileStates_revoked maxAttempts probed p =
     (case probed of
        Inl e \<Rightarrow> reject e (clearInterval p)
      | Inr fileStates \<Rightarrow>
          if list_all (\<lambda>(fileId, fileState). fileState = Str ''revoked'') fileStates then
            resolve (clearInterval p)
          else if at_least (attempts p) maxAttempts then
            reject polling_timeout (clearInterval p)
          else p)"

text \<open>
  What can happen to a running operation: \<open>Elapsed\<close>, another 3000 ms have passed, and
  \<open>Answered a\<close>, the server has answered an awaited probe with \<open>a\<close>. The timer calls the
  closure only while it is set; an answer is consumed only by an awaited probe. Nothing
  orders the two kinds of event: the timer does not wait for an answer.
\<close>

datatype 'a event = Elapsed | Answered 'a

fun step ::
  "(uhale \<Rightarrow> error + request) \<Rightarrow> ('a \<Rightarrow> poll \<Rightarrow> poll) \<Rightarrow> 'a event \<Rightarrow> poll \<Rightarrow> poll" where
  "step probe_request resume Elapsed p =
     (if interval p then call_probe probe_request p else p)"
| "step probe_request resume (Answered a) p =
     (if outstanding p = 0 then p else resume a (p\<lparr>outstanding := outstanding p - 1\<rparr>))"

fun run ::
  "(uhale \<Rightarrow> error + request) \<Rightarrow> ('a \<Rightarrow> poll \<Rightarrow> poll) \<Rightarrow> 'a event list \<Rightarrow> poll \<Rightarrow> poll" where
  "run probe_request resume [] p = p"
| "run probe_request resume (ev # evs) p =
     run probe_request resume evs (step probe_request resume ev p)"

text \<open>
  The promise executor: \<^verbatim>\<open>attempts = 0\<close>, \<^verbatim>\<open>setInterval\<close>, then the first call of the
  closure.
\<close>

definition executor :: "(uhale \<Rightarrow> error + request) \<Rightarrow> uhale \<Rightarrow> poll" where
  "executor probe_request u =
     call_probe probe_request
       \<lparr>attempts = 0, interval = True, outstanding = 0, promise = None, client = u\<rparr>"

text \<open>
  The three methods: the state of the operation after the events \<open>evs\<close>. \<open>None\<close> for
  \<^verbatim>\<open>maxAttempts\<close> is a call that leaves the argument out.
\<close>

definition waitForLoggedIn ::
  "number option \<Rightarrow> string option fetched event list \<Rightarrow> uhale \<Rightarrow> poll" where
  "waitForLoggedIn maxAttempts evs u =
     run getSessionIdState_request
       (\<lambda>a. checkSessionIdState (case maxAttempts of None \<Rightarrow> Finite 5 | Some n \<Rightarrow> n)
               (getSessionIdState_result a))
       evs (executor getSessionIdState_request u)"

definition waitForFilesUploaded ::
  "string list \<Rightarrow> number option \<Rightarrow> (string \<times> string option) list fetched event list \<Rightarrow> uhale
     \<Rightarrow> poll" where
  "waitForFilesUploaded fileIds maxAttempts evs u =
     run (getFileState_request fileIds)
       (\<lambda>a. checkFileStates_uploaded (case maxAttempts of None \<Rightarrow> Infinity | Some n \<Rightarrow> n)
               (getFileState_result a))
       evs (executor (getFileState_request fileIds) u)"

definition waitForFilesRevoked ::
  "string list \<Rightarrow> number option \<Rightarrow> (string \<times> string option) list fetched event list \<Rightarrow> uhale
     \<Rightarrow> poll" where
  "waitForFilesRevoked fileIds maxAttempts evs u =
     run (getFileRevokeState_request fileIds)
       (\<lambda>a. checkFileStates_revoked (case maxAttempts of None \<Rightarrow> Infinity | Some n \<Rightarrow> n)
               (getFileRevokeState_result a))
       evs (executor (getFileRevokeState_request fileIds) u)"

text \<open>What \<^verbatim>\<open>await promise; return x\<close> gives: nothing yet while the promise is pending.\<close>

definition awaited :: "poll \<Rightarrow> 'a \<Rightarrow> (error + 'a) option" where
  "awaited p x =
     (case promise p of
        None \<Rightarrow> None
      | Some Resolved \<Rightarrow> Some (Inr x)
      | Some (Rejected e) \<Rightarrow> Some (Inl e))"

section \<open>Uploading\<close>

text \<open>
  The raw \<^verbatim>\<open>fetch\<close> of \<^verbatim>\<open>uploadFile\<close>: it rejects, or it resolves with a response of
  some HTTP status. The source binds the response to nothing.
\<close>

datatype put = PutRejects error | PutResponds nat

definition put_request :: "string \<Rightarrow> string \<Rightarrow> request" where
  "put_request awsUploadUrl file =
     \<lparr>url = awsUploadUrl, query = [], http_method = ''PUT'', headers = [], body = Raw file\<rparr>"

text \<open>
  \<^verbatim>\<open>uploadFile\<close>. \<open>fileSize\<close> and \<open>subject\<close> are options (\<^verbatim>\<open>fileSize ?? file.length\<close>,
  \<^verbatim>\<open>subject = ''\<close>); the answers are those to the calls in order, and \<open>evs\<close> is what
  happens during the final poll. The result is \<open>None\<close> while that poll is pending.
\<close>

definition uploadFile ::
  "string \<Rightarrow> bool \<Rightarrow> string \<Rightarrow> int option \<Rightarrow> string \<Rightarrow> string option
     \<Rightarrow> UhalePresignedUrl fetched \<Rightarrow> put \<Rightarrow> string fetched
     \<Rightarrow> (string \<times> string option) list fetched event list \<Rightarrow> uhale
     \<Rightarrow> (error + string) option \<times> uhale" where
  "uploadFile t isImage file fileSize terminalId subject answer1 answer2 answer3 evs u =
     (if \<not> truthy (sessionId u) then (Some (Inl no_session_id), u)
      else
        let fileSize' = (case fileSize of None \<Rightarrow> int (length file) | Some n \<Rightarrow> n)
        in case getPresignedUrl t isImage fileSize' terminalId None answer1 u of
             (Inl e, u1) \<Rightarrow> (Some (Inl e), u1)
           | (Inr (UhalePresignedUrl awsUploadUrl fileUrl fileId), u1) \<Rightarrow>
               (case answer2 of
                  PutRejects e \<Rightarrow> (Some (Inl e), send (put_request awsUploadUrl file) u1)
                | PutResponds status \<Rightarrow>
                    (case saveUploadedFile fileUrl fileId (default subject []) fileSize' terminalId
                            answer3 (send (put_request awsUploadUrl file) u1) of
                       (Inl e, u3) \<Rightarrow> (Some (Inl e), u3)
                     | (Inr _, u3) \<Rightarrow>
                         (let p = waitForFilesUploaded [fileId] None evs u3
                          in (awaited p fileId, client p)))))"

section \<open>Kinds of request\<close>

text \<open>
  The three requests that \<^verbatim>\<open>login\<close> can make, recognised by endpoint and query:
  \<^verbatim>\<open>/sessionId\<close> without a token, \<^verbatim>\<open>/user/device/login\<close> with the credentials, and
  \<^verbatim>\<open>/getSessionId\<close> with the user token.
\<close>

definition anonymous_acquisition :: "uhale \<Rightarrow> request \<Rightarrow> bool" where
  "anonymous_acquisition u r \<longleftrightarrow> url r = apiUrl u @ ''/sessionId'' \<and> query r = []"

definition credential_exchange :: "uhale \<Rightarrow> string \<Rightarrow> string \<Rightarrow> request \<Rightarrow> bool" where
  "credential_exchange u email password r \<longleftrightarrow>
     url r = userUrl u @ ''/user/device/login'' \<and> http_method r = ''POST'' \<and>
     query r = [(''email'', Text email), (''pwd'', Text password)]"

definition authenticated_acquisition :: "uhale \<Rightarrow> string \<Rightarrow> request \<Rightarrow> bool" where
  "authenticated_acquisition u userToken r \<longleftrightarrow>
     url r = apiUrl u @ ''/getSessionId'' \<and> query r = [(''userToken'', Text userToken)]"

section \<open>Notions used to state the properties of polling\<close>

text \<open>
  The timer is set exactly while the promise is pending.
\<close>

definition unsettled :: "poll \<Rightarrow> bool" where
  "unsettled p \<longleftrightarrow> (interval p \<longleftrightarrow> promise p = None)"

text \<open>
  A closure, resumed, does one of three things: nothing, clear the timer and resolve, or
  clear the timer and reject.
\<close>

definition decides :: "('a \<Rightarrow> poll \<Rightarrow> poll) \<Rightarrow> bool" where
  "decides resume \<longleftrightarrow>
     (\<forall>a p. resume a p = p \<or> resume a p = resolve (clearInterval p) \<or>
            (\<exists>e. resume a p = reject e (clearInterval p)))"

text \<open>
  Answers that are neither a success nor a failure of the poll: a session state other
  than \<open>loggedIn\<close>, \<open>failed\<close> and \<open>expired\<close>; file states that are not all \<open>uploaded\<close>;
  file states that are not all \<open>revoked\<close>.
\<close>

definition session_pending :: "string option fetched \<Rightarrow> bool" where
  "session_pending a =
     (case getSessionIdState_result a of
        Inl e \<Rightarrow> False
      | Inr s \<Rightarrow> s \<noteq> Str ''loggedIn'' \<and> s \<noteq> Str ''failed'' \<and> s \<noteq> Str ''expired'')"

definition upload_pending :: "(string \<times> string option) list fetched \<Rightarrow> bool" where
  "upload_pending a =
     (case getFileState_result a of
        Inl e \<Rightarrow> False
      | Inr fileStates \<Rightarrow>
          \<not> list_all (\<lambda>(fileId, fileState). fileState = Str ''uploaded'') fileStates)"

definition revoke_pending :: "(string \<times> string option) list fetched \<Rightarrow> bool" where
  "revoke_pending a =
     (case getFileRevokeState_result a of
        Inl e \<Rightarrow> False
      | Inr fileStates \<Rightarrow>
          \<not> list_all (\<lambda>(fileId, fileState). fileState = Str ''revoked'') fileStates)"

text \<open>
  The schedule on which every probe is answered before the timer fires again: the
  answers \<open>as\<close>, one timer period between two of them.
\<close>

fun serial :: "'a list \<Rightarrow> 'a event list" where
  "serial [] = []"
| "serial [a] = [Answered a]"
| "serial (a # b # bs) = Answered a # Elapsed # serial (b # bs)"

text \<open>A probe sends its request whenever the client has a session identifier.\<close>

definition probes :: "(uhale \<Rightarrow> error + request) \<Rightarrow> bool" where
  "probes probe_request \<longleftrightarrow>
     (\<forall>u. truthy (sessionId u) \<longrightarrow> (\<exists>req. probe_request u = Inr req))"

section \<open>State codes of the batch queries\<close>

lemma numeric_not_inherited: "numeric_code k \<Longrightarrow> k \<notin> set object_prototype_keys"
  by (auto simp: numeric_code_def object_prototype_keys_def)

lemma numeric_property:
  "numeric_code c \<Longrightarrow>
   property own (Some c) = (case map_of own c of Some v \<Rightarrow> Str v | None \<Rightarrow> Undefined)"
  by (simp add: property_def numeric_not_inherited split: option.splits)

lemma file_state_numeric:
  "numeric_code c \<Longrightarrow>
   file_state (Some c) =
     (if c = ''1'' then Str ''pending''
      else if c = ''2'' \<or> c = ''3'' then Str ''uploaded'' else Str c)"
  by (simp add: file_state_def numeric_property file_states_def nullish_def received_def)

lemma revoke_state_numeric:
  "numeric_code c \<Longrightarrow>
   revoke_state (Some c) =
     (if c = ''1'' then Str ''pending''
      else if c = ''2'' then Str ''revoked'' else Str ''unknown'')"
  by (simp add: revoke_state_def numeric_property revoke_states_def nullish_def)

lemma getFileState_states:
  "truthy (sessionId u) \<Longrightarrow> respond answer = Inr entries \<Longrightarrow>
   fst (priv_getFileState fileIds answer u) =
     Inr (map (\<lambda>(fileId, fileState). (fileId, file_state fileState)) entries)"
  by (simp add: priv_getFileState_def getFileState_request_def getFileState_result_def)

lemma getFileRevokeState_states:
  "truthy (sessionId u) \<Longrightarrow> respond answer = Inr entries \<Longrightarrow>
   fst (priv_getFileRevokeState fileIds answer u) =
     Inr (map (\<lambda>(fileId, fileState). (fileId, revoke_state fileState)) entries)"
  by (simp add: priv_getFileRevokeState_def getFileRevokeState_request_def
                getFileRevokeState_result_def)

lemma entry_mapped:
  "(fileId, code) \<in> set entries \<Longrightarrow>
   (fileId, f code) \<in> set (map (\<lambda>(fileId, fileState). (fileId, f fileState)) entries)"
  by force

text \<open>
  Claim C1, as the code has it. When the server's answer carries the numeric code \<open>c\<close>
  for a file identifier, the revocation query reports \<open>pending\<close> for 1, \<open>revoked\<close> for 2
  and \<open>unknown\<close> for every other code. The upload query reports \<open>pending\<close> for 1 and
  \<open>uploaded\<close> for 2 and 3, but every other numeric code is handed on unchanged as the
  state: \<^verbatim>\<open>states[fileState] ?? fileState ?? 'unknown'\<close> reaches \<open>unknown\<close> only for a
  code that is \<^verbatim>\<open>null\<close>.
\<close>

theorem file_state_codes:
  assumes "truthy (sessionId u)" and "respond answer = Inr entries"
    and "(fileId, Some c) \<in> set entries" and "numeric_code c"
  shows "(\<exists>states. fst (priv_getFileState fileIds answer u) = Inr states \<and>
            (fileId, if c = ''1'' then Str ''pending''
                     else if c = ''2'' \<or> c = ''3'' then Str ''uploaded''
                     else Str c) \<in> set states) \<and>
         (\<exists>states. fst (priv_getFileRevokeState fileIds answer u) = Inr states \<and>
            (fileId, if c = ''1'' then Str ''pending''
                     else if c = ''2'' then Str ''revoked''
                     else Str ''unknown'') \<in> set states) \<and>
         file_state None = Str ''unknown''"
proof (intro conjI)
  have "(fileId, file_state (Some c)) \<in>
          set (map (\<lambda>(fileId, fileState). (fileId, file_state fileState)) entries)"
    using assms(3) by (rule entry_mapped)
  then show "\<exists>states. fst (priv_getFileState fileIds answer u) = Inr states \<and>
           (fileId, if c = ''1'' then Str ''pending''
                    else if c = ''2'' \<or> c = ''3'' then Str ''uploaded''
                    else Str c) \<in> set states"
    unfolding getFileState_states [OF assms(1,2)] file_state_numeric [OF assms(4)]
    by blast
next
  have "(fileId, revoke_state (Some c)) \<in>
          set (map (\<lambda>(fileId, fileState). (fileId, revoke_state fileState)) entries)"
    using assms(3) by (rule entry_mapped)
  then show "\<exists>states. fst (priv_getFileRevokeState fileIds answer u) = Inr states \<and>
           (fileId, if c = ''1'' then Str ''pending''
                    else if c = ''2'' then Str ''revoked''
                    else Str ''unknown'') \<in> set states"
    unfolding getFileRevokeState_states [OF assms(1,2)] revoke_state_numeric [OF assms(4)]
    by blast
next
  show "file_state None = Str ''unknown''"
    by (simp add: file_state_def property_def file_states_def object_prototype_keys_def
                  nullish_def received_def)
qed

theorem file_state_codes_witness:
  "(\<exists>states. fst (priv_getFileState [''f'']
                    (Replies \<lparr>errorCode = Some ''0'', errorMsg = [],
                              data = [(''f'', Some ''7'')]\<rparr>)
                    ((Uhale None)\<lparr>sessionId := Some ''s''\<rparr>)) = Inr states \<and>
      (''f'', Str ''7'') \<in> set states) \<and>
   (\<exists>states. fst (priv_getFileRevokeState [''f'']
                    (Replies \<lparr>errorCode = Some ''0'', errorMsg = [],
                              data = [(''f'', Some ''7'')]\<rparr>)
                    ((Uhale None)\<lparr>sessionId := Some ''s''\<rparr>)) = Inr states \<and>
      (''f'', Str ''unknown'') \<in> set states)"
  using file_state_codes
          [where u = "(Uhale None)\<lparr>sessionId := Some ''s''\<rparr>"
             and answer = "Replies \<lparr>errorCode = Some ''0'', errorMsg = [],
                                    data = [(''f'', Some ''7'')]\<rparr>"
             and entries = "[(''f'', Some ''7'')]" and fileId = "''f''" and c = "''7''"
             and fileIds = "[''f'']"]
  by (simp add: truthy_def respond_def numeric_code_def)

text \<open>
  Claim C1 as stated fails for the upload query: the unrecognised code 4 is reported as
  the state \<open>4\<close>, not as \<open>unknown\<close>.
\<close>

theorem file_state_unrecognised_code:
  "fst (priv_getFileState [''f'']
          (Replies \<lparr>errorCode = Some ''0'', errorMsg = [], data = [(''f'', Some ''4'')]\<rparr>)
          ((Uhale None)\<lparr>sessionId := Some ''s''\<rparr>))
     = Inr [(''f'', Str ''4'')] \<and>
   fst (priv_getFileState [''f'']
          (Replies \<lparr>errorCode = Some ''0'', errorMsg = [], data = [(''f'', Some ''4'')]\<rparr>)
          ((Uhale None)\<lparr>sessionId := Some ''s''\<rparr>))
     \<noteq> Inr [(''f'', Str ''unknown'')]"
  by (simp add: priv_getFileState_def getFileState_request_def getFileState_result_def
       respond_def truthy_def Uhale_def file_state_def property_def file_states_def
       object_prototype_keys_def nullish_def received_def)

section \<open>The envelope\<close>

text \<open>
  Claim C8, as the code has it. A call whose envelope has arrived throws exactly when
  \<open>errorCode\<close> is present, not empty and not \<open>0\<close>; the error then carries the code and
  the message. In every other case, an empty \<open>errorCode\<close> included, the call returns the
  \<open>data\<close> of the envelope. The request has been sent either way.
\<close>

theorem callApi_envelope:
  "((\<exists>e. fst (priv_callApi req (Replies response) u) = Inl e) \<longleftrightarrow>
      (\<exists>code. errorCode response = Some code \<and> code \<noteq> [] \<and> code \<noteq> ''0'')) \<and>
   (errorCode response = Some code \<and> code \<noteq> [] \<and> code \<noteq> ''0'' \<longrightarrow>
      fst (priv_callApi req (Replies response) u) =
        Inl (Error (code @ '': '' @ errorMsg response))) \<and>
   (errorCode response = None \<or> errorCode response = Some [] \<or>
    errorCode response = Some ''0'' \<longrightarrow>
      fst (priv_callApi req (Replies response) u) = Inr (data response)) \<and>
   sent (snd (priv_callApi req (Replies response) u)) = sent u @ [req]"
  by (cases "errorCode response")
     (auto simp: priv_callApi_def respond_def truthy_def default_def send_def)

theorem callApi_envelope_witness:
  "fst (priv_callApi (getTerminals_request (Uhale None))
          (Replies \<lparr>errorCode = Some ''401'', errorMsg = ''denied'', data = ''d''\<rparr>)
          (Uhale None)) = Inl (Error ''401: denied'') \<and>
   fst (priv_callApi (getTerminals_request (Uhale None))
          (Replies \<lparr>errorCode = Some ''0'', errorMsg = ''ok'', data = ''d''\<rparr>)
          (Uhale None)) = Inr ''d''"
  using callApi_envelope
          [of "getTerminals_request (Uhale None)"
              "\<lparr>errorCode = Some ''401'', errorMsg = ''denied'', data = ''d''\<rparr>"
              "Uhale None" "''401''"]
        callApi_envelope
          [of "getTerminals_request (Uhale None)"
              "\<lparr>errorCode = Some ''0'', errorMsg = ''ok'', data = ''d''\<rparr>"
              "Uhale None" "''0''"]
  by simp

text \<open>
  Claim C8 as stated fails for an \<open>errorCode\<close> that is present, differs from \<open>0\<close> and is
  the empty string: the call returns the data.
\<close>

theorem callApi_empty_errorCode:
  "errorCode \<lparr>errorCode = Some [], errorMsg = ''denied'', data = ''d''\<rparr> \<noteq> None \<and>
   errorCode \<lparr>errorCode = Some [], errorMsg = ''denied'', data = ''d''\<rparr> \<noteq> Some ''0'' \<and>
   fst (priv_callApi (getTerminals_request (Uhale None))
          (Replies \<lparr>errorCode = Some [], errorMsg = ''denied'', data = ''d''\<rparr>)
          (Uhale None)) = Inr ''d''"
  by (simp add: priv_callApi_def respond_def truthy_def)
section \<open>Operations that need a session\<close>

text \<open>
  Claim C3. Each of \<^verbatim>\<open>getTerminals\<close>, \<^verbatim>\<open>uploadFile\<close>, \<^verbatim>\<open>revokeFiles\<close>,
  \<^verbatim>\<open>getSessionIdState\<close>, \<^verbatim>\<open>getPresignedUrl\<close> and \<^verbatim>\<open>saveUploadedFile\<close>, called on a
  client whose session identifier is absent, throws \<^verbatim>\<open>Error('no session id')\<close> (the
  specification's PreconditionError) whatever the server would have answered, and leaves
  the client as it was: in particular the list of requests sent has not grown.
\<close>

theorem authenticated_requires_session:
  assumes "sessionId u = None"
  shows "getTerminals answer_t u = (Inl (Error ''no session id''), u) \<and>
         uploadFile t isImage file fileSize terminalId subject answer1 answer2 answer3 evs u =
           (Some (Inl (Error ''no session id'')), u) \<and>
         revokeFiles terminalId fileIds answer_r u = (Inl (Error ''no session id''), u) \<and>
         getSessionIdState answer_s u = (Inl (Error ''no session id''), u) \<and>
         getPresignedUrl t isImage n terminalId offlineStorage answer1 u =
           (Inl (Error ''no session id''), u) \<and>
         saveUploadedFile fileUrl fileId subject' n terminalId answer3 u =
           (Inl (Error ''no session id''), u)"
  using assms
  by (simp add: getTerminals_def uploadFile_def revokeFiles_def getSessionIdState_def
        getSessionIdState_request_def getPresignedUrl_def saveUploadedFile_def
        truthy_def no_session_id_def)

theorem authenticated_requires_session_witness:
  "sessionId (Uhale None) = None \<and> sent (Uhale None) = [] \<and>
   getTerminals (Replies \<lparr>errorCode = Some ''0'', errorMsg = [], data = [''t'']\<rparr>) (Uhale None) =
     (Inl (Error ''no session id''), Uhale None) \<and>
   getSessionIdState (Replies \<lparr>errorCode = Some ''0'', errorMsg = [], data = Some ''2''\<rparr>)
       (Uhale None) =
     (Inl (Error ''no session id''), Uhale None)"
  using authenticated_requires_session
          [where u = "Uhale None"
             and answer_t = "Replies \<lparr>errorCode = Some ''0'', errorMsg = [], data = [''t'']\<rparr>"
             and answer_s = "Replies \<lparr>errorCode = Some ''0'', errorMsg = [], data = Some ''2''\<rparr>"]
  by (simp add: Uhale_def)

section \<open>Logging in\<close>

text \<open>
  Claim C5. \<^verbatim>\<open>login\<close> called with an email or a password that is empty or absent
  throws \<^verbatim>\<open>Error('email and password are required')\<close> (the specification's
  ValidationError) and returns the client unchanged: no request has been sent, and the
  session identifier and the stored user are what they were.
\<close>

theorem login_requires_credentials:
  assumes "\<not> truthy email \<or> \<not> truthy password"
  shows "login hmac timestamp email password answer1 answer2 answer3 u =
           (Inl (Error ''email and password are required''), u)"
  using assms by (simp add: login_def email_and_password_are_required_def)

theorem login_requires_credentials_witness:
  "login (\<lambda>k m. k @ m) ''17'' (Some []) (Some ''x'') (Replies \<lparr>errorCode = Some ''0'', errorMsg = [], data = Some ''anon''\<rparr>) (Replies \<lparr>errorCode = Some ''0'', errorMsg = [], data = UhaleLogin ''99'' ''tok''\<rparr>) (Replies \<lparr>errorCode = Some ''0'', errorMsg = [], data = Some ''anon''\<rparr>) (Uhale None) =
     (Inl (Error ''email and password are required''), Uhale None) \<and>
   login (\<lambda>k m. k @ m) ''17'' (Some ''x'') (Some []) (Replies \<lparr>errorCode = Some ''0'', errorMsg = [], data = Some ''anon''\<rparr>) (Replies \<lparr>errorCode = Some ''0'', errorMsg = [], data = UhaleLogin ''99'' ''tok''\<rparr>) (Replies \<lparr>errorCode = Some ''0'', errorMsg = [], data = Some ''anon''\<rparr>) (Uhale None) =
     (Inl (Error ''email and password are required''), Uhale None) \<and>
   login (\<lambda>k m. k @ m) ''17'' None (Some ''x'') (Replies \<lparr>errorCode = Some ''0'', errorMsg = [], data = Some ''anon''\<rparr>) (Replies \<lparr>errorCode = Some ''0'', errorMsg = [], data = UhaleLogin ''99'' ''tok''\<rparr>) (Replies \<lparr>errorCode = Some ''0'', errorMsg = [], data = Some ''anon''\<rparr>) (Uhale None) =
     (Inl (Error ''email and password are required''), Uhale None) \<and>
   sent (Uhale None) = []"
  using login_requires_credentials
          [of "Some []" "Some ''x''" "\<lambda>k m. k @ m" "''17''" "(Replies \<lparr>errorCode = Some ''0'', errorMsg = [], data = Some ''anon''\<rparr>)" "(Replies \<lparr>errorCode = Some ''0'', errorMsg = [], data = UhaleLogin ''99'' ''tok''\<rparr>)" "(Replies \<lparr>errorCode = Some ''0'', errorMsg = [], data = Some ''anon''\<rparr>)" "Uhale None"]
        login_requires_credentials
          [of "Some ''x''" "Some []" "\<lambda>k m. k @ m" "''17''" "(Replies \<lparr>errorCode = Some ''0'', errorMsg = [], data = Some ''anon''\<rparr>)" "(Replies \<lparr>errorCode = Some ''0'', errorMsg = [], data = UhaleLogin ''99'' ''tok''\<rparr>)" "(Replies \<lparr>errorCode = Some ''0'', errorMsg = [], data = Some ''anon''\<rparr>)" "Uhale None"]
        login_requires_credentials
          [of "None" "Some ''x''" "\<lambda>k m. k @ m" "''17''" "(Replies \<lparr>errorCode = Some ''0'', errorMsg = [], data = Some ''anon''\<rparr>)" "(Replies \<lparr>errorCode = Some ''0'', errorMsg = [], data = UhaleLogin ''99'' ''tok''\<rparr>)" "(Replies \<lparr>errorCode = Some ''0'', errorMsg = [], data = Some ''anon''\<rparr>)" "Uhale None"]
  by (simp add: truthy_def Uhale_def)

lemma getSessionId_anonymous:
  "priv_getSessionId None answer u =
     (case respond answer of
        Inl e \<Rightarrow> (Inl e, send (getSessionId_request None u) u)
      | Inr d \<Rightarrow> (Inr (), (send (getSessionId_request None u) u)\<lparr>sessionId := d\<rparr>))"
  by (simp add: priv_getSessionId_def priv_callApi_def split: sum.splits)

lemma anonymous_request: "anonymous_acquisition u (getSessionId_request None u)"
  by (simp add: anonymous_acquisition_def getSessionId_request_def truthy_def)

lemma authenticated_request:
  "userToken \<noteq> [] \<Longrightarrow> apiUrl u' = apiUrl u \<Longrightarrow>
   authenticated_acquisition u userToken (getSessionId_request (Some userToken) u')"
  by (simp add: authenticated_acquisition_def getSessionId_request_def truthy_def default_def)

lemma tokenless_request:
  "apiUrl u' = apiUrl u \<Longrightarrow> anonymous_acquisition u (getSessionId_request (Some []) u')"
  by (simp add: anonymous_acquisition_def getSessionId_request_def truthy_def)

lemma exchange_request:
  "userUrl u' = userUrl u \<Longrightarrow>
   credential_exchange u email password (login_request hmac timestamp email password u')"
  by (simp add: credential_exchange_def login_request_def)

lemma sent_getSessionId:
  "sent (snd (priv_getSessionId userToken answer u)) = sent u @ [getSessionId_request userToken u]"
  by (simp add: priv_getSessionId_def priv_callApi_def send_def split: sum.splits)

text \<open>
  Claim C4, as the code has it. \<^verbatim>\<open>login\<close> with a non-empty email and password, on a
  server whose first answer issues a session identifier: when the credential exchange
  succeeds, the requests sent are exactly an anonymous acquisition, the credential
  exchange and one further acquisition, in this order; that third request is the
  authenticated acquisition when the user token of the exchange is not empty, and a
  second anonymous acquisition when it is empty (\<^verbatim>\<open>if (userToken)\<close> in \<^verbatim>\<open>_getSessionId\<close>).
  When the credential exchange fails, \<^verbatim>\<open>login\<close> throws its error, the requests sent are
  exactly the anonymous acquisition and the exchange, and the stored session identifier
  is the anonymous one.
\<close>

theorem login_sequence:
  assumes "email \<noteq> []" and "password \<noteq> []"
    and "respond acquired = Inr (Some anonymous)" and "anonymous \<noteq> []"
  shows "(respond exchanged = Inr (UhaleLogin expireAt userToken) \<longrightarrow>
            (\<exists>r1 r2 r3.
               sent (snd (login hmac timestamp (Some email) (Some password)
                            acquired exchanged reacquired u)) = sent u @ [r1, r2, r3] \<and>
               anonymous_acquisition u r1 \<and> credential_exchange u email password r2 \<and>
               (if userToken \<noteq> [] then authenticated_acquisition u userToken r3
                else anonymous_acquisition u r3))) \<and>
         (respond exchanged = Inl e \<longrightarrow>
            fst (login hmac timestamp (Some email) (Some password)
                   acquired exchanged reacquired u) = Inl e \<and>
            sessionId (snd (login hmac timestamp (Some email) (Some password)
                              acquired exchanged reacquired u)) = Some anonymous \<and>
            (\<exists>r1 r2.
               sent (snd (login hmac timestamp (Some email) (Some password)
                            acquired exchanged reacquired u)) = sent u @ [r1, r2] \<and>
               anonymous_acquisition u r1 \<and> credential_exchange u email password r2))"
proof -
  let ?r1 = "getSessionId_request None u"
  let ?u1 = "(send ?r1 u)\<lparr>sessionId := Some anonymous\<rparr>"
  let ?r2 = "login_request hmac timestamp email password ?u1"
  let ?login = "login hmac timestamp (Some email) (Some password) acquired exchanged reacquired u"
  have first: "priv_getSessionId None acquired u = (Inr (), ?u1)"
    using assms(3) by (simp add: getSessionId_anonymous)
  have session: "truthy (sessionId ?u1)"
    using assms(4) by (simp add: truthy_def)
  have creds: "truthy (Some email)" "truthy (Some password)"
    using assms(1,2) by (simp_all add: truthy_def)
  have r1: "anonymous_acquisition u ?r1" by (rule anonymous_request)
  have r2: "credential_exchange u email password ?r2"
    by (rule exchange_request) (simp add: send_def)
  have failing: "fst ?login = Inl e \<and> sessionId (snd ?login) = Some anonymous \<and>
                 sent (snd ?login) = sent u @ [?r1, ?r2]"
    if "respond exchanged = Inl e"
    using that creds session
    by (simp add: login_def first priv_login_def priv_callApi_def default_def send_def)
  have passing: "\<exists>r3. sent (snd ?login) = sent u @ [?r1, ?r2, r3] \<and>
                   (if userToken \<noteq> [] then authenticated_acquisition u userToken r3
                    else anonymous_acquisition u r3)"
    if ok: "respond exchanged = Inr (UhaleLogin expireAt userToken)"
  proof -
    let ?u2 = "(send ?r2 ?u1)\<lparr>user := Some \<lparr>token = userToken, expiresAt = expireAt\<rparr>\<rparr>"
    have "?login = priv_getSessionId (Some userToken) reacquired ?u2"
      using ok creds session
      by (simp add: login_def first priv_login_def priv_callApi_def default_def)
    then have "sent (snd ?login) = sent ?u2 @ [getSessionId_request (Some userToken) ?u2]"
      by (simp add: sent_getSessionId)
    moreover have "sent ?u2 = sent u @ [?r1, ?r2]" by (simp add: send_def)
    moreover have "authenticated_acquisition u userToken
                     (getSessionId_request (Some userToken) ?u2)" if "userToken \<noteq> []"
      using that by (rule authenticated_request) (simp add: send_def)
    moreover have "anonymous_acquisition u (getSessionId_request (Some userToken) ?u2)"
      if "userToken = []"
      unfolding that by (rule tokenless_request) (simp add: send_def)
    ultimately show ?thesis by auto
  qed
  show ?thesis using failing passing r1 r2 by blast
qed

theorem login_sequence_witness:
  "(\<exists>r1 r2 r3.
      sent (snd (login (\<lambda>k m. k @ m) ''17'' (Some ''a@b.c'') (Some ''pw'')
                   (Replies \<lparr>errorCode = Some ''0'', errorMsg = [], data = Some ''anon''\<rparr>)
                   (Replies \<lparr>errorCode = Some ''0'', errorMsg = [],
                             data = UhaleLogin ''99'' ''tok''\<rparr>)
                   (Replies \<lparr>errorCode = Some ''0'', errorMsg = [], data = Some ''auth''\<rparr>)
                   (Uhale None))) = [r1, r2, r3] \<and>
      anonymous_acquisition (Uhale None) r1 \<and>
      credential_exchange (Uhale None) ''a@b.c'' ''pw'' r2 \<and>
      authenticated_acquisition (Uhale None) ''tok'' r3) \<and>
   sessionId (snd (login (\<lambda>k m. k @ m) ''17'' (Some ''a@b.c'') (Some ''pw'')
                   (Replies \<lparr>errorCode = Some ''0'', errorMsg = [], data = Some ''anon''\<rparr>)
                   (Rejects (TypeError ''fetch failed''))
                   (Replies \<lparr>errorCode = Some ''0'', errorMsg = [], data = Some ''auth''\<rparr>)
                   (Uhale None))) = Some ''anon''"
  using login_sequence
          [where email = "''a@b.c''" and password = "''pw''" and anonymous = "''anon''"
             and hmac = "\<lambda>k m. k @ m" and timestamp = "''17''" and u = "Uhale None"
             and acquired = "Replies \<lparr>errorCode = Some ''0'', errorMsg = [],
                                      data = Some ''anon''\<rparr>"
             and exchanged = "Replies \<lparr>errorCode = Some ''0'', errorMsg = [],
                                      data = UhaleLogin ''99'' ''tok''\<rparr>"
             and reacquired = "Replies \<lparr>errorCode = Some ''0'', errorMsg = [],
                                      data = Some ''auth''\<rparr>"
             and expireAt = "''99''" and userToken = "''tok''"]
        login_sequence
          [where email = "''a@b.c''" and password = "''pw''" and anonymous = "''anon''"
             and hmac = "\<lambda>k m. k @ m" and timestamp = "''17''" and u = "Uhale None"
             and acquired = "Replies \<lparr>errorCode = Some ''0'', errorMsg = [],
                                      data = Some ''anon''\<rparr>"
             and exchanged = "Rejects (TypeError ''fetch failed'')"
             and reacquired = "Replies \<lparr>errorCode = Some ''0'', errorMsg = [],
                                      data = Some ''auth''\<rparr>"
             and e = "TypeError ''fetch failed''"]
  by (simp add: respond_def truthy_def Uhale_def)

text \<open>
  Claim C4 as stated fails when the credential exchange succeeds with an empty user
  token: \<^verbatim>\<open>login\<close> resolves, and its third request is a second anonymous acquisition, not
  an authenticated one.
\<close>

theorem login_empty_token:
  "fst (login (\<lambda>k m. k @ m) ''17'' (Some ''a@b.c'') (Some ''pw'')
          (Replies \<lparr>errorCode = Some ''0'', errorMsg = [], data = Some ''anon''\<rparr>)
          (Replies \<lparr>errorCode = Some ''0'', errorMsg = [], data = UhaleLogin ''99'' []\<rparr>)
          (Replies \<lparr>errorCode = Some ''0'', errorMsg = [], data = Some ''again''\<rparr>)
          (Uhale None)) = Inr () \<and>
   map url (sent (snd (login (\<lambda>k m. k @ m) ''17'' (Some ''a@b.c'') (Some ''pw'')
          (Replies \<lparr>errorCode = Some ''0'', errorMsg = [], data = Some ''anon''\<rparr>)
          (Replies \<lparr>errorCode = Some ''0'', errorMsg = [], data = UhaleLogin ''99'' []\<rparr>)
          (Replies \<lparr>errorCode = Some ''0'', errorMsg = [], data = Some ''again''\<rparr>)
          (Uhale None)))) =
     [apiUrl (Uhale None) @ ''/sessionId'', userUrl (Uhale None) @ ''/user/device/login'',
      apiUrl (Uhale None) @ ''/sessionId''] \<and>
   map query (sent (snd (login (\<lambda>k m. k @ m) ''17'' (Some ''a@b.c'') (Some ''pw'')
          (Replies \<lparr>errorCode = Some ''0'', errorMsg = [], data = Some ''anon''\<rparr>)
          (Replies \<lparr>errorCode = Some ''0'', errorMsg = [], data = UhaleLogin ''99'' []\<rparr>)
          (Replies \<lparr>errorCode = Some ''0'', errorMsg = [], data = Some ''again''\<rparr>)
          (Uhale None)))) =
     [[], [(''email'', Text ''a@b.c''), (''pwd'', Text ''pw'')], []]"
  by (simp add: login_def priv_getSessionId_def priv_login_def priv_callApi_def respond_def
        getSessionId_request_def login_request_def send_def truthy_def default_def Uhale_def)

section \<open>Polling: what every run preserves\<close>

lemma decides_checkSessionIdState:
  "decides (\<lambda>a. checkSessionIdState m (f a))"
  unfolding decides_def checkSessionIdState_def
  by (auto split: sum.splits)

lemma decides_checkFileStates_uploaded:
  "decides (\<lambda>a. checkFileStates_uploaded m (f a))"
  unfolding decides_def checkFileStates_uploaded_def
  by (auto split: sum.splits)

lemma decides_checkFileStates_revoked:
  "decides (\<lambda>a. checkFileStates_revoked m (f a))"
  unfolding decides_def checkFileStates_revoked_def
  by (auto split: sum.splits)

lemma decides_cases:
  assumes "decides resume"
  obtains "resume a p = p" | "resume a p = resolve (clearInterval p)"
        | e where "resume a p = reject e (clearInterval p)"
  using assms unfolding decides_def by blast

lemma unsettled_settle:
  "unsettled p \<Longrightarrow> unsettled (resolve (clearInterval p))"
  "unsettled p \<Longrightarrow> unsettled (reject e (clearInterval p))"
  by (auto simp: unsettled_def resolve_def reject_def clearInterval_def)

lemma unsettled_call_probe: "unsettled p \<Longrightarrow> interval p \<Longrightarrow> unsettled (call_probe probe_request p)"
  by (auto simp: unsettled_def call_probe_def Let_def reject_def clearInterval_def split: sum.splits)

lemma unsettled_step:
  assumes "decides resume" and "unsettled p"
  shows "unsettled (step probe_request resume ev p)"
proof (cases ev)
  case Elapsed
  then show ?thesis using assms(2) by (simp add: unsettled_call_probe)
next
  case (Answered a)
  let ?q = "p\<lparr>outstanding := outstanding p - 1\<rparr>"
  have q: "unsettled ?q" using assms(2) by (simp add: unsettled_def)
  show ?thesis
    using Answered q assms(2) unsettled_settle [of ?q]
    by (cases rule: decides_cases [OF assms(1), of a ?q]) auto
qed

lemma unsettled_run:
  "decides resume \<Longrightarrow> unsettled p \<Longrightarrow> unsettled (run probe_request resume evs p)"
  by (induction evs arbitrary: p) (simp_all add: unsettled_step)

lemma unsettled_executor: "unsettled (executor probe_request u)"
  unfolding executor_def by (rule unsettled_call_probe) (simp_all add: unsettled_def)

text \<open>Once the timer is cleared, nothing changes the counter, the requests or the promise's settled state.\<close>

lemma cleared_step:
  assumes "decides resume" and "\<not> interval p"
  shows "\<not> interval (step probe_request resume ev p) \<and>
         attempts (step probe_request resume ev p) = attempts p \<and>
         client (step probe_request resume ev p) = client p"
proof (cases ev)
  case Elapsed
  then show ?thesis using assms(2) by simp
next
  case (Answered a)
  let ?q = "p\<lparr>outstanding := outstanding p - 1\<rparr>"
  show ?thesis
    using Answered assms(2)
    by (cases rule: decides_cases [OF assms(1), of a ?q])
       (auto simp: resolve_def reject_def clearInterval_def)
qed

lemma cleared_run:
  "decides resume \<Longrightarrow> \<not> interval p \<Longrightarrow>
   \<not> interval (run probe_request resume evs p) \<and>
   attempts (run probe_request resume evs p) = attempts p \<and>
   client (run probe_request resume evs p) = client p"
proof (induction evs arbitrary: p)
  case Nil
  then show ?case by simp
next
  case (Cons ev evs)
  from cleared_step [OF Cons.prems, of probe_request ev]
  show ?case using Cons.IH [OF Cons.prems(1), of "step probe_request resume ev p"] by simp
qed

lemma settled_step:
  assumes "decides resume" and "promise p = Some s"
  shows "promise (step probe_request resume ev p) = Some s"
proof (cases ev)
  case Elapsed
  then show ?thesis using assms(2)
    by (auto simp: call_probe_def Let_def reject_def clearInterval_def split: sum.splits)
next
  case (Answered a)
  let ?q = "p\<lparr>outstanding := outstanding p - 1\<rparr>"
  show ?thesis
    using Answered assms(2)
    by (cases rule: decides_cases [OF assms(1), of a ?q])
       (auto simp: resolve_def reject_def clearInterval_def)
qed

lemma settled_run:
  "decides resume \<Longrightarrow> promise p = Some s \<Longrightarrow> promise (run probe_request resume evs p) = Some s"
  by (induction evs arbitrary: p) (simp_all add: settled_step)

lemma run_append:
  "run probe_request resume (evs @ evs') p =
     run probe_request resume evs' (run probe_request resume evs p)"
  by (induction evs arbitrary: p) simp_all

lemma attempts_call_probe: "attempts (call_probe probe_request p) = attempts p + 1"
  by (simp add: call_probe_def Let_def reject_def clearInterval_def split: sum.splits)

lemma attempts_step:
  assumes "decides resume"
  shows "attempts p \<le> attempts (step probe_request resume ev p)"
proof (cases ev)
  case Elapsed
  then show ?thesis by (simp add: attempts_call_probe)
next
  case (Answered a)
  let ?q = "p\<lparr>outstanding := outstanding p - 1\<rparr>"
  show ?thesis
    using Answered
    by (cases rule: decides_cases [OF assms(1), of a ?q])
       (auto simp: resolve_def reject_def clearInterval_def)
qed

lemma attempts_run:
  "decides resume \<Longrightarrow> attempts p \<le> attempts (run probe_request resume evs p)"
proof (induction evs arbitrary: p)
  case Nil
  then show ?case by simp
next
  case (Cons ev evs)
  have "attempts p \<le> attempts (step probe_request resume ev p)"
    using Cons.prems by (rule attempts_step)
  also have "\<dots> \<le> attempts (run probe_request resume evs (step probe_request resume ev p))"
    using Cons.prems by (rule Cons.IH)
  finally show ?case by simp
qed

lemma attempts_executor: "attempts (executor probe_request u) = 1"
  by (simp add: executor_def attempts_call_probe)

lemma settled_is_final:
  assumes d: "decides resume"
    and p: "p = run probe_request resume evs (executor probe_request u)"
    and s: "promise p \<noteq> None"
  shows "attempts (run probe_request resume (evs @ evs') (executor probe_request u)) = attempts p \<and>
         sent (client (run probe_request resume (evs @ evs') (executor probe_request u))) = sent (client p) \<and>
         promise (run probe_request resume (evs @ evs') (executor probe_request u)) = promise p"
proof -
  have "unsettled p" unfolding p using d unsettled_executor by (rule unsettled_run)
  with s have off: "\<not> interval p" by (simp add: unsettled_def)
  from s obtain st where st: "promise p = Some st" by blast
  show ?thesis
    using cleared_run [OF d off, of probe_request evs'] settled_run [OF d st, of probe_request evs']
    by (simp add: run_append p [symmetric] st)
qed
section \<open>Polling: settlement and the timer\<close>

lemma client_call_probe:
  "sessionId (client (call_probe probe_request p)) = sessionId (client p)"
  by (simp add: call_probe_def Let_def reject_def clearInterval_def send_def split: sum.splits)

lemma session_step:
  assumes "decides resume"
  shows "sessionId (client (step probe_request resume ev p)) = sessionId (client p)"
proof (cases ev)
  case Elapsed
  then show ?thesis by (simp add: client_call_probe)
next
  case (Answered a)
  let ?q = "p\<lparr>outstanding := outstanding p - 1\<rparr>"
  show ?thesis
    using Answered
    by (cases rule: decides_cases [OF assms(1), of a ?q])
       (auto simp: resolve_def reject_def clearInterval_def)
qed

lemma session_run:
  "decides resume \<Longrightarrow>
   sessionId (client (run probe_request resume evs p)) = sessionId (client p)"
  by (induction evs arbitrary: p) (simp_all add: session_step)

lemma session_executor: "sessionId (client (executor probe_request u)) = sessionId u"
  by (simp add: executor_def client_call_probe)

lemma probes_session: "probes getSessionIdState_request"
  by (simp add: probes_def getSessionIdState_request_def)

lemma probes_upload: "probes (getFileState_request fileIds)"
  by (simp add: probes_def getFileState_request_def)

lemma probes_revoke: "probes (getFileRevokeState_request fileIds)"
  by (simp add: probes_def getFileRevokeState_request_def)

lemma call_probe_sends:
  assumes "probes probe_request" and "truthy (sessionId (client p))"
  shows "attempts (call_probe probe_request p) = attempts p + 1 \<and>
         outstanding (call_probe probe_request p) = Suc (outstanding p) \<and>
         interval (call_probe probe_request p) = interval p \<and>
         promise (call_probe probe_request p) = promise p"
proof -
  from assms obtain req where "probe_request (client p) = Inr req"
    unfolding probes_def by blast
  then show ?thesis by (simp add: call_probe_def Let_def)
qed

lemma executor_sends:
  assumes "probes probe_request" and "truthy (sessionId u)"
  shows "attempts (executor probe_request u) = 1 \<and>
         outstanding (executor probe_request u) = 1 \<and>
         interval (executor probe_request u) \<and>
         promise (executor probe_request u) = None"
  unfolding executor_def
  using call_probe_sends [OF assms(1),
          of "\<lparr>attempts = 0, interval = True, outstanding = 0, promise = None, client = u\<rparr>"]
        assms(2)
  by simp

text \<open>A timer period during a pending operation starts one more probe.\<close>

lemma elapsed_starts_probe:
  assumes d: "decides resume" and pr: "probes probe_request" and s: "truthy (sessionId u)"
    and pending: "promise (run probe_request resume evs (executor probe_request u)) = None"
  shows "outstanding (run probe_request resume (evs @ [Elapsed]) (executor probe_request u)) =
           Suc (outstanding (run probe_request resume evs (executor probe_request u))) \<and>
         attempts (run probe_request resume (evs @ [Elapsed]) (executor probe_request u)) =
           attempts (run probe_request resume evs (executor probe_request u)) + 1"
proof -
  let ?p = "run probe_request resume evs (executor probe_request u)"
  have "unsettled ?p" using d unsettled_executor by (rule unsettled_run)
  with pending have on: "interval ?p" by (simp add: unsettled_def)
  have "sessionId (client ?p) = sessionId u"
    by (simp add: session_run [OF d] session_executor)
  with s have "truthy (sessionId (client ?p))" by simp
  from call_probe_sends [OF pr this] on show ?thesis
    by (simp add: run_append)
qed

lemma poll_settled:
  assumes "decides resume"
    and "promise (run probe_request resume evs (executor probe_request u)) \<noteq> None"
  shows "\<not> interval (run probe_request resume evs (executor probe_request u)) \<and>
         attempts (run probe_request resume (evs @ evs') (executor probe_request u)) =
           attempts (run probe_request resume evs (executor probe_request u)) \<and>
         sent (client (run probe_request resume (evs @ evs') (executor probe_request u))) =
           sent (client (run probe_request resume evs (executor probe_request u)))"
proof -
  have "unsettled (run probe_request resume evs (executor probe_request u))"
    using assms(1) unsettled_executor by (rule unsettled_run)
  with assms(2) have "\<not> interval (run probe_request resume evs (executor probe_request u))"
    by (simp add: unsettled_def)
  with settled_is_final [OF assms(1) refl assms(2), of evs'] show ?thesis by simp
qed

lemma loggedIn_settled:
  "promise (waitForLoggedIn m evs u) \<noteq> None \<Longrightarrow>
   \<not> interval (waitForLoggedIn m evs u) \<and>
   attempts (waitForLoggedIn m (evs @ evs') u) = attempts (waitForLoggedIn m evs u) \<and>
   sent (client (waitForLoggedIn m (evs @ evs') u)) = sent (client (waitForLoggedIn m evs u))"
  unfolding waitForLoggedIn_def by (rule poll_settled [OF decides_checkSessionIdState])

lemma uploaded_settled:
  "promise (waitForFilesUploaded fileIds m evs u) \<noteq> None \<Longrightarrow>
   \<not> interval (waitForFilesUploaded fileIds m evs u) \<and>
   attempts (waitForFilesUploaded fileIds m (evs @ evs') u) =
     attempts (waitForFilesUploaded fileIds m evs u) \<and>
   sent (client (waitForFilesUploaded fileIds m (evs @ evs') u)) =
     sent (client (waitForFilesUploaded fileIds m evs u))"
  unfolding waitForFilesUploaded_def by (rule poll_settled [OF decides_checkFileStates_uploaded])

lemma revoked_settled:
  "promise (waitForFilesRevoked fileIds m evs u) \<noteq> None \<Longrightarrow>
   \<not> interval (waitForFilesRevoked fileIds m evs u) \<and>
   attempts (waitForFilesRevoked fileIds m (evs @ evs') u) =
     attempts (waitForFilesRevoked fileIds m evs u) \<and>
   sent (client (waitForFilesRevoked fileIds m (evs @ evs') u)) =
     sent (client (waitForFilesRevoked fileIds m evs u))"
  unfolding waitForFilesRevoked_def by (rule poll_settled [OF decides_checkFileStates_revoked])

lemma loggedIn_elapsed:
  "truthy (sessionId u) \<Longrightarrow> promise (waitForLoggedIn m evs u) = None \<Longrightarrow>
   outstanding (waitForLoggedIn m (evs @ [Elapsed]) u) = Suc (outstanding (waitForLoggedIn m evs u)) \<and>
   attempts (waitForLoggedIn m (evs @ [Elapsed]) u) = attempts (waitForLoggedIn m evs u) + 1"
  unfolding waitForLoggedIn_def
  by (rule elapsed_starts_probe [OF decides_checkSessionIdState probes_session])

lemma uploaded_elapsed:
  "truthy (sessionId u) \<Longrightarrow> promise (waitForFilesUploaded fileIds m evs u) = None \<Longrightarrow>
   outstanding (waitForFilesUploaded fileIds m (evs @ [Elapsed]) u) =
     Suc (outstanding (waitForFilesUploaded fileIds m evs u)) \<and>
   attempts (waitForFilesUploaded fileIds m (evs @ [Elapsed]) u) =
     attempts (waitForFilesUploaded fileIds m evs u) + 1"
  unfolding waitForFilesUploaded_def
  by (rule elapsed_starts_probe [OF decides_checkFileStates_uploaded probes_upload])

lemma revoked_elapsed:
  "truthy (sessionId u) \<Longrightarrow> promise (waitForFilesRevoked fileIds m evs u) = None \<Longrightarrow>
   outstanding (waitForFilesRevoked fileIds m (evs @ [Elapsed]) u) =
     Suc (outstanding (waitForFilesRevoked fileIds m evs u)) \<and>
   attempts (waitForFilesRevoked fileIds m (evs @ [Elapsed]) u) =
     attempts (waitForFilesRevoked fileIds m evs u) + 1"
  unfolding waitForFilesRevoked_def
  by (rule elapsed_starts_probe [OF decides_checkFileStates_revoked probes_revoke])

text \<open>
  Claim C2, as the code has it. In each of the three polling operations, once the
  returned promise has resolved or rejected, the interval timer is cleared and whatever
  happens afterwards starts no probe: the counter of probes and the list of requests sent
  stay as they are. Probes are not serialised: while the promise is pending, every timer
  period starts one more probe, whether or not earlier probes are still awaited.
\<close>

theorem polling_stops_at_settlement:
  "(promise (waitForLoggedIn m evs u) \<noteq> None \<longrightarrow>
      \<not> interval (waitForLoggedIn m evs u) \<and>
      attempts (waitForLoggedIn m (evs @ evs') u) = attempts (waitForLoggedIn m evs u) \<and>
      sent (client (waitForLoggedIn m (evs @ evs') u)) = sent (client (waitForLoggedIn m evs u))) \<and>
   (promise (waitForFilesUploaded fileIds m fvs u) \<noteq> None \<longrightarrow>
      \<not> interval (waitForFilesUploaded fileIds m fvs u) \<and>
      attempts (waitForFilesUploaded fileIds m (fvs @ fvs') u) =
        attempts (waitForFilesUploaded fileIds m fvs u) \<and>
      sent (client (waitForFilesUploaded fileIds m (fvs @ fvs') u)) =
        sent (client (waitForFilesUploaded fileIds m fvs u))) \<and>
   (promise (waitForFilesRevoked fileIds m fvs u) \<noteq> None \<longrightarrow>
      \<not> interval (waitForFilesRevoked fileIds m fvs u) \<and>
      attempts (waitForFilesRevoked fileIds m (fvs @ fvs') u) =
        attempts (waitForFilesRevoked fileIds m fvs u) \<and>
      sent (client (waitForFilesRevoked fileIds m (fvs @ fvs') u)) =
        sent (client (waitForFilesRevoked fileIds m fvs u))) \<and>
   (truthy (sessionId u) \<and> promise (waitForLoggedIn m evs u) = None \<longrightarrow>
      outstanding (waitForLoggedIn m (evs @ [Elapsed]) u) =
        Suc (outstanding (waitForLoggedIn m evs u))) \<and>
   (truthy (sessionId u) \<and> promise (waitForFilesUploaded fileIds m fvs u) = None \<longrightarrow>
      outstanding (waitForFilesUploaded fileIds m (fvs @ [Elapsed]) u) =
        Suc (outstanding (waitForFilesUploaded fileIds m fvs u))) \<and>
   (truthy (sessionId u) \<and> promise (waitForFilesRevoked fileIds m fvs u) = None \<longrightarrow>
      outstanding (waitForFilesRevoked fileIds m (fvs @ [Elapsed]) u) =
        Suc (outstanding (waitForFilesRevoked fileIds m fvs u)))"
  using loggedIn_settled [of m evs u evs'] uploaded_settled [of fileIds m fvs u fvs']
        revoked_settled [of fileIds m fvs u fvs'] loggedIn_elapsed [of u m evs]
        uploaded_elapsed [of u fileIds m fvs] revoked_elapsed [of u fileIds m fvs]
  by simp

theorem polling_stops_at_settlement_witness:
  "promise (waitForLoggedIn None
              [Answered (Replies \<lparr>errorCode = Some ''0'', errorMsg = [], data = Some ''2''\<rparr>)]
              ((Uhale None)\<lparr>sessionId := Some ''s''\<rparr>)) = Some Resolved \<and>
   attempts (waitForLoggedIn None
               ([Answered (Replies \<lparr>errorCode = Some ''0'', errorMsg = [], data = Some ''2''\<rparr>)]
                @ [Elapsed, Elapsed])
               ((Uhale None)\<lparr>sessionId := Some ''s''\<rparr>)) = 1"
  using polling_stops_at_settlement
          [where m = None and u = "(Uhale None)\<lparr>sessionId := Some ''s''\<rparr>"
             and evs = "[Answered (Replies \<lparr>errorCode = Some ''0'', errorMsg = [],
                                            data = Some ''2''\<rparr>)]"
             and evs' = "[Elapsed, Elapsed]"]
  by (simp add: waitForLoggedIn_def executor_def call_probe_def getSessionIdState_request_def
        getSessionIdState_result_def respond_def session_state_def property_def
        session_states_def nullish_def checkSessionIdState_def resolve_def clearInterval_def
        truthy_def Uhale_def send_def)

text \<open>
  Claim C2 as stated fails in its first half: when the first answer takes longer than
  one timer period, a second probe is started while the first one is still awaited.
\<close>

theorem probes_overlap:
  "outstanding (waitForLoggedIn None [Elapsed] ((Uhale None)\<lparr>sessionId := Some ''s''\<rparr>)) = 2 \<and>
   attempts (waitForLoggedIn None [Elapsed] ((Uhale None)\<lparr>sessionId := Some ''s''\<rparr>)) = 2 \<and>
   promise (waitForLoggedIn None [Elapsed] ((Uhale None)\<lparr>sessionId := Some ''s''\<rparr>)) = None"
  by (simp add: waitForLoggedIn_def executor_def call_probe_def getSessionIdState_request_def
        truthy_def Uhale_def send_def)
section \<open>Polling: the attempt budget\<close>

lemma serial_run:
  assumes pend: "\<forall>a\<in>set as. \<forall>q. resume a q =
                   (if n \<le> attempts q then reject polling_timeout (clearInterval q) else q)"
    and pr: "probes probe_request"
    and "as \<noteq> []" and "interval p" and "promise p = None" and "outstanding p = 1"
    and "truthy (sessionId (client p))"
    and "attempts p + int (length as) - 1 \<le> n"
  shows "attempts (run probe_request resume (serial as) p) = attempts p + int (length as) - 1 \<and>
         outstanding (run probe_request resume (serial as) p) = 0 \<and>
         interval (run probe_request resume (serial as) p) =
           (attempts p + int (length as) - 1 < n) \<and>
         promise (run probe_request resume (serial as) p) =
           (if attempts p + int (length as) - 1 < n then None
            else Some (Rejected polling_timeout))"
  using assms
proof (induction as arbitrary: p rule: serial.induct)
  case 1
  then show ?case by simp
next
  case (2 a)
  then show ?case
    by (simp add: reject_def clearInterval_def)
next
  case (3 a b bs)
  let ?q = "p\<lparr>outstanding := outstanding p - 1\<rparr>"
  let ?p' = "call_probe probe_request ?q"
  from "3.prems" have less: "attempts p < n" by simp
  with "3.prems" have answered: "step probe_request resume (Answered a) p = ?q"
    by simp
  have elapsed: "step probe_request resume Elapsed ?q = ?p'"
    using "3.prems" by simp
  have sends: "attempts ?p' = attempts p + 1 \<and> outstanding ?p' = 1 \<and> interval ?p' \<and>
               promise ?p' = None"
    using call_probe_sends [OF pr, of ?q] "3.prems" by simp
  have session: "truthy (sessionId (client ?p'))"
    using "3.prems" by (simp add: client_call_probe)
  have "\<forall>a\<in>set (b # bs). \<forall>q. resume a q =
          (if n \<le> attempts q then reject polling_timeout (clearInterval q) else q)"
    using "3.prems"(1) by simp
  from "3.IH" [OF this pr, of ?p'] sends session "3.prems"
  have "attempts (run probe_request resume (serial (b # bs)) ?p') =
          attempts ?p' + int (length (b # bs)) - 1 \<and>
        outstanding (run probe_request resume (serial (b # bs)) ?p') = 0 \<and>
        interval (run probe_request resume (serial (b # bs)) ?p') =
          (attempts ?p' + int (length (b # bs)) - 1 < n) \<and>
        promise (run probe_request resume (serial (b # bs)) ?p') =
          (if attempts ?p' + int (length (b # bs)) - 1 < n then None
           else Some (Rejected polling_timeout))"
    by simp
  moreover have "run probe_request resume (serial (a # b # bs)) p =
                 run probe_request resume (serial (b # bs)) ?p'"
    using answered elapsed by simp
  ultimately show ?case using sends by simp
qed

lemma serial_poll:
  assumes pend: "\<forall>a\<in>set as. \<forall>q. resume a q =
                   (if n \<le> attempts q then reject polling_timeout (clearInterval q) else q)"
    and pr: "probes probe_request" and "as \<noteq> []" and "truthy (sessionId u)"
    and "int (length as) \<le> n"
  shows "attempts (run probe_request resume (serial as) (executor probe_request u)) =
           int (length as) \<and>
         promise (run probe_request resume (serial as) (executor probe_request u)) =
           (if int (length as) < n then None else Some (Rejected polling_timeout))"
  using serial_run [OF pend pr assms(3), of "executor probe_request u"]
        executor_sends [OF pr assms(4)] assms(4,5)
  by (simp add: session_executor)

lemma session_pending_resume:
  "session_pending a \<Longrightarrow>
   checkSessionIdState (Finite n) (getSessionIdState_result a) q =
     (if n \<le> attempts q then reject polling_timeout (clearInterval q) else q)"
  by (auto simp: session_pending_def checkSessionIdState_def split: sum.splits)

lemma upload_pending_resume:
  "upload_pending a \<Longrightarrow>
   checkFileStates_uploaded (Finite n) (getFileState_result a) q =
     (if n \<le> attempts q then reject polling_timeout (clearInterval q) else q)"
  by (auto simp: upload_pending_def checkFileStates_uploaded_def split: sum.splits)

lemma revoke_pending_resume:
  "revoke_pending a \<Longrightarrow>
   checkFileStates_revoked (Finite n) (getFileRevokeState_result a) q =
     (if n \<le> attempts q then reject polling_timeout (clearInterval q) else q)"
  by (auto simp: revoke_pending_def checkFileStates_revoked_def split: sum.splits)

lemma loggedIn_serial:
  assumes "truthy (sessionId u)" and "as \<noteq> []" and "list_all session_pending as"
    and "int (length as) \<le> n"
  shows "attempts (waitForLoggedIn (Some (Finite n)) (serial as) u) = int (length as) \<and>
         promise (waitForLoggedIn (Some (Finite n)) (serial as) u) =
           (if int (length as) < n then None else Some (Rejected polling_timeout))"
  unfolding waitForLoggedIn_def option.case
  by (rule serial_poll [OF _ probes_session assms(2,1,4)])
     (use assms(3) in \<open>simp add: list_all_iff session_pending_resume\<close>)

lemma uploaded_serial:
  assumes "truthy (sessionId u)" and "as \<noteq> []" and "list_all upload_pending as"
    and "int (length as) \<le> n"
  shows "attempts (waitForFilesUploaded fileIds (Some (Finite n)) (serial as) u) =
           int (length as) \<and>
         promise (waitForFilesUploaded fileIds (Some (Finite n)) (serial as) u) =
           (if int (length as) < n then None else Some (Rejected polling_timeout))"
  unfolding waitForFilesUploaded_def option.case
  by (rule serial_poll [OF _ probes_upload assms(2,1,4)])
     (use assms(3) in \<open>simp add: list_all_iff upload_pending_resume\<close>)

lemma revoked_serial:
  assumes "truthy (sessionId u)" and "as \<noteq> []" and "list_all revoke_pending as"
    and "int (length as) \<le> n"
  shows "attempts (waitForFilesRevoked fileIds (Some (Finite n)) (serial as) u) =
           int (length as) \<and>
         promise (waitForFilesRevoked fileIds (Some (Finite n)) (serial as) u) =
           (if int (length as) < n then None else Some (Rejected polling_timeout))"
  unfolding waitForFilesRevoked_def option.case
  by (rule serial_poll [OF _ probes_revoke assms(2,1,4)])
     (use assms(3) in \<open>simp add: list_all_iff revoke_pending_resume\<close>)
text \<open>
  Claim C6, as the code has it. In each of the three polling operations, on a client
  with a session, with \<^verbatim>\<open>maxAttempts\<close> a finite \<open>n \<ge> 1\<close> and \<open>n\<close> answers none of which
  is a success or a failure, each answer arriving before the timer fires again: the
  promise rejects with \<^verbatim>\<open>Error('Polling timeout')\<close> when exactly \<open>n\<close> probes have been
  made, it is still pending after every smaller number of answers, and whatever happens
  afterwards makes no further probe.
\<close>

theorem timeout_after_budget:
  assumes "truthy (sessionId u)"
    and "as \<noteq> []" and "list_all session_pending as"
    and "bs \<noteq> []" and "list_all upload_pending bs"
    and "cs \<noteq> []" and "list_all revoke_pending cs"
  shows "(promise (waitForLoggedIn (Some (Finite (int (length as)))) (serial as) u) =
            Some (Rejected (Error ''Polling timeout'')) \<and>
          attempts (waitForLoggedIn (Some (Finite (int (length as)))) (serial as) u) =
            int (length as) \<and>
          attempts (waitForLoggedIn (Some (Finite (int (length as)))) (serial as @ evs') u) =
            int (length as) \<and>
          (0 < k \<and> k < length as \<longrightarrow>
             promise (waitForLoggedIn (Some (Finite (int (length as)))) (serial (take k as)) u) =
               None)) \<and>
         (promise (waitForFilesUploaded fileIds (Some (Finite (int (length bs)))) (serial bs) u) =
            Some (Rejected (Error ''Polling timeout'')) \<and>
          attempts (waitForFilesUploaded fileIds (Some (Finite (int (length bs)))) (serial bs) u) =
            int (length bs) \<and>
          attempts (waitForFilesUploaded fileIds (Some (Finite (int (length bs))))
                      (serial bs @ fvs') u) = int (length bs) \<and>
          (0 < k \<and> k < length bs \<longrightarrow>
             promise (waitForFilesUploaded fileIds (Some (Finite (int (length bs))))
                        (serial (take k bs)) u) = None)) \<and>
         (promise (waitForFilesRevoked fileIds (Some (Finite (int (length cs)))) (serial cs) u) =
            Some (Rejected (Error ''Polling timeout'')) \<and>
          attempts (waitForFilesRevoked fileIds (Some (Finite (int (length cs)))) (serial cs) u) =
            int (length cs) \<and>
          attempts (waitForFilesRevoked fileIds (Some (Finite (int (length cs))))
                      (serial cs @ fvs') u) = int (length cs) \<and>
          (0 < k \<and> k < length cs \<longrightarrow>
             promise (waitForFilesRevoked fileIds (Some (Finite (int (length cs))))
                        (serial (take k cs)) u) = None))"
proof -
  have pre: "0 < k \<and> k < length xs \<Longrightarrow> list_all P xs \<Longrightarrow>
             take k xs \<noteq> [] \<and> list_all P (take k xs) \<and>
             int (length (take k xs)) \<le> int (length xs) \<and>
             int (length (take k xs)) < int (length xs)" for P and xs :: "'x list"
    by (auto simp: list_all_iff dest: in_set_takeD)
  note a = loggedIn_serial [OF assms(1,2,3), of "int (length as)"]
  note b = uploaded_serial [OF assms(1,4,5), of "int (length bs)" fileIds]
  note c = revoked_serial [OF assms(1,6,7), of "int (length cs)" fileIds]
  have a': "attempts (waitForLoggedIn (Some (Finite (int (length as)))) (serial as @ evs') u) =
            int (length as)"
    using a loggedIn_settled [of "Some (Finite (int (length as)))" "serial as" u evs'] by simp
  have b': "attempts (waitForFilesUploaded fileIds (Some (Finite (int (length bs))))
                      (serial bs @ fvs') u) = int (length bs)"
    using b uploaded_settled [of fileIds "Some (Finite (int (length bs)))" "serial bs" u fvs']
    by simp
  have c': "attempts (waitForFilesRevoked fileIds (Some (Finite (int (length cs))))
                      (serial cs @ fvs') u) = int (length cs)"
    using c revoked_settled [of fileIds "Some (Finite (int (length cs)))" "serial cs" u fvs']
    by simp
  have a'': "promise (waitForLoggedIn (Some (Finite (int (length as)))) (serial (take k as)) u) =
             None" if "0 < k \<and> k < length as"
    using pre [OF that assms(3)]
          loggedIn_serial [OF assms(1), of "take k as" "int (length as)"] by simp
  have b'': "promise (waitForFilesUploaded fileIds (Some (Finite (int (length bs))))
                        (serial (take k bs)) u) = None" if "0 < k \<and> k < length bs"
    using pre [OF that assms(5)]
          uploaded_serial [OF assms(1), of "take k bs" "int (length bs)" fileIds] by simp
  have c'': "promise (waitForFilesRevoked fileIds (Some (Finite (int (length cs))))
                        (serial (take k cs)) u) = None" if "0 < k \<and> k < length cs"
    using pre [OF that assms(7)]
          revoked_serial [OF assms(1), of "take k cs" "int (length cs)" fileIds] by simp
  show ?thesis
    using a b c a' b' c' a'' b'' c'' by (simp add: polling_timeout_def)
qed

theorem timeout_after_budget_witness:
  "promise (waitForLoggedIn (Some (Finite 3)) (serial [(Replies \<lparr>errorCode = Some ''0'', errorMsg = [], data = Some ''1''\<rparr>), (Replies \<lparr>errorCode = Some ''0'', errorMsg = [], data = Some ''1''\<rparr>), (Replies \<lparr>errorCode = Some ''0'', errorMsg = [], data = Some ''1''\<rparr>)]) ((Uhale None)\<lparr>sessionId := Some ''s''\<rparr>)) =
     Some (Rejected (Error ''Polling timeout'')) \<and>
   attempts (waitForLoggedIn (Some (Finite 3)) (serial [(Replies \<lparr>errorCode = Some ''0'', errorMsg = [], data = Some ''1''\<rparr>), (Replies \<lparr>errorCode = Some ''0'', errorMsg = [], data = Some ''1''\<rparr>), (Replies \<lparr>errorCode = Some ''0'', errorMsg = [], data = Some ''1''\<rparr>)]) ((Uhale None)\<lparr>sessionId := Some ''s''\<rparr>)) = 3 \<and>
   attempts (waitForLoggedIn (Some (Finite 3)) (serial [(Replies \<lparr>errorCode = Some ''0'', errorMsg = [], data = Some ''1''\<rparr>), (Replies \<lparr>errorCode = Some ''0'', errorMsg = [], data = Some ''1''\<rparr>), (Replies \<lparr>errorCode = Some ''0'', errorMsg = [], data = Some ''1''\<rparr>)] @ [Elapsed, Elapsed]) ((Uhale None)\<lparr>sessionId := Some ''s''\<rparr>)) = 3 \<and>
   promise (waitForLoggedIn (Some (Finite 3)) (serial (take 2 [(Replies \<lparr>errorCode = Some ''0'', errorMsg = [], data = Some ''1''\<rparr>), (Replies \<lparr>errorCode = Some ''0'', errorMsg = [], data = Some ''1''\<rparr>), (Replies \<lparr>errorCode = Some ''0'', errorMsg = [], data = Some ''1''\<rparr>)])) ((Uhale None)\<lparr>sessionId := Some ''s''\<rparr>)) = None"
  using timeout_after_budget
          [where u = "((Uhale None)\<lparr>sessionId := Some ''s''\<rparr>)" and as = "[(Replies \<lparr>errorCode = Some ''0'', errorMsg = [], data = Some ''1''\<rparr>), (Replies \<lparr>errorCode = Some ''0'', errorMsg = [], data = Some ''1''\<rparr>), (Replies \<lparr>errorCode = Some ''0'', errorMsg = [], data = Some ''1''\<rparr>)]" and bs = "[(Replies \<lparr>errorCode = Some ''0'', errorMsg = [], data = [(''f'', Some ''1'')]\<rparr>)]" and cs = "[(Replies \<lparr>errorCode = Some ''0'', errorMsg = [], data = [(''f'', Some ''1'')]\<rparr>)]"
             and k = 2 and evs' = "[Elapsed, Elapsed]"]
  by (simp add: session_pending_def upload_pending_def revoke_pending_def
        getSessionIdState_result_def getFileState_result_def getFileRevokeState_result_def
        respond_def session_state_def file_state_def revoke_state_def property_def
        session_states_def file_states_def revoke_states_def nullish_def truthy_def)

text \<open>
  Claim C6 as stated fails when an answer is slower than the timer: with
  \<^verbatim>\<open>maxAttempts = 1\<close>, the timer starts a second probe before the first answer arrives,
  and the timeout is raised after two probes.
\<close>

theorem timeout_overlapping_probes:
  "promise (waitForFilesUploaded [''f''] (Some (Finite 1))
              [Elapsed,
               Answered (Replies \<lparr>errorCode = Some ''0'', errorMsg = [],
                                  data = [(''f'', Some ''1'')]\<rparr>)]
              ((Uhale None)\<lparr>sessionId := Some ''s''\<rparr>)) =
     Some (Rejected (Error ''Polling timeout'')) \<and>
   attempts (waitForFilesUploaded [''f''] (Some (Finite 1))
               [Elapsed,
                Answered (Replies \<lparr>errorCode = Some ''0'', errorMsg = [],
                                   data = [(''f'', Some ''1'')]\<rparr>)]
               ((Uhale None)\<lparr>sessionId := Some ''s''\<rparr>)) = 2"
  by (simp add: waitForFilesUploaded_def executor_def call_probe_def getFileState_request_def
        getFileState_result_def respond_def file_state_def property_def file_states_def
        nullish_def checkFileStates_uploaded_def reject_def clearInterval_def
        polling_timeout_def truthy_def Uhale_def send_def)



lemma late_answer_timeout:
  assumes d: "decides resume" and n: "n \<le> 0"
    and pend: "\<forall>q. resume x q =
                 (if n \<le> attempts q then reject polling_timeout (clearInterval q) else q)"
    and p: "promise (run probe_request resume evs (executor probe_request u)) = None"
    and o: "0 < outstanding (run probe_request resume evs (executor probe_request u))"
  shows "promise (run probe_request resume (evs @ [Answered x]) (executor probe_request u)) =
           Some (Rejected polling_timeout)"
proof -
  let ?p = "run probe_request resume evs (executor probe_request u)"
  have "1 \<le> attempts ?p"
    using attempts_run [OF d, of "executor probe_request u" probe_request evs]
    by (simp add: attempts_executor)
  with n have "n \<le> attempts ?p" by simp
  then show ?thesis
    using p o pend by (simp add: run_append reject_def clearInterval_def)
qed

lemma loggedIn_late:
  "n \<le> 0 \<Longrightarrow> session_pending a \<Longrightarrow>
   promise (waitForLoggedIn (Some (Finite n)) evs u) = None \<Longrightarrow>
   0 < outstanding (waitForLoggedIn (Some (Finite n)) evs u) \<Longrightarrow>
   promise (waitForLoggedIn (Some (Finite n)) (evs @ [Answered a]) u) =
     Some (Rejected polling_timeout)"
  unfolding waitForLoggedIn_def option.case
  by (rule late_answer_timeout [OF decides_checkSessionIdState, where n = n and x = a])
     (simp_all add: session_pending_resume)

lemma uploaded_late:
  "n \<le> 0 \<Longrightarrow> upload_pending b \<Longrightarrow>
   promise (waitForFilesUploaded fileIds (Some (Finite n)) evs u) = None \<Longrightarrow>
   0 < outstanding (waitForFilesUploaded fileIds (Some (Finite n)) evs u) \<Longrightarrow>
   promise (waitForFilesUploaded fileIds (Some (Finite n)) (evs @ [Answered b]) u) =
     Some (Rejected polling_timeout)"
  unfolding waitForFilesUploaded_def option.case
  by (rule late_answer_timeout [OF decides_checkFileStates_uploaded, where n = n and x = b])
     (simp_all add: upload_pending_resume)

lemma revoked_late:
  "n \<le> 0 \<Longrightarrow> revoke_pending b \<Longrightarrow>
   promise (waitForFilesRevoked fileIds (Some (Finite n)) evs u) = None \<Longrightarrow>
   0 < outstanding (waitForFilesRevoked fileIds (Some (Finite n)) evs u) \<Longrightarrow>
   promise (waitForFilesRevoked fileIds (Some (Finite n)) (evs @ [Answered b]) u) =
     Some (Rejected polling_timeout)"
  unfolding waitForFilesRevoked_def option.case
  by (rule late_answer_timeout [OF decides_checkFileStates_revoked, where n = n and x = b])
     (simp_all add: revoke_pending_resume)
section \<open>Polling: the first probe\<close>

lemma executor_request:
  "probe_request u = Inr r \<Longrightarrow>
   sent (client (executor probe_request u)) = sent u @ [r] \<and>
   promise (executor probe_request u) = None \<and>
   attempts (executor probe_request u) = 1 \<and>
   outstanding (executor probe_request u) = 1"
  by (simp add: executor_def call_probe_def send_def)

lemma executor_throws:
  "probe_request u = Inl e \<Longrightarrow>
   sent (client (executor probe_request u)) = sent u \<and>
   promise (executor probe_request u) = Some (Rejected e) \<and>
   attempts (executor probe_request u) = 1"
  by (simp add: executor_def call_probe_def reject_def clearInterval_def)

lemma sent_step:
  assumes "decides resume"
  shows "\<exists>rest. sent (client (step probe_request resume ev p)) = sent (client p) @ rest"
proof (cases ev)
  case Elapsed
  then show ?thesis
    by (simp add: call_probe_def Let_def reject_def clearInterval_def send_def
          split: sum.splits)
next
  case (Answered a)
  let ?q = "p\<lparr>outstanding := outstanding p - 1\<rparr>"
  show ?thesis
    using Answered
    by (cases rule: decides_cases [OF assms(1), of a ?q])
       (auto simp: resolve_def reject_def clearInterval_def)
qed

lemma sent_run:
  assumes "decides resume"
  shows "\<exists>rest. sent (client (run probe_request resume evs p)) = sent (client p) @ rest"
proof (induction evs arbitrary: p)
  case Nil
  then show ?case by simp
next
  case (Cons ev evs)
  obtain r1 where "sent (client (step probe_request resume ev p)) = sent (client p) @ r1"
    using sent_step [OF assms] by blast
  moreover obtain r2 where
    "sent (client (run probe_request resume evs (step probe_request resume ev p))) =
       sent (client (step probe_request resume ev p)) @ r2"
    using Cons.IH by blast
  ultimately show ?case by simp
qed

lemma first_probe_sent:
  assumes d: "decides resume" and pr: "probes probe_request" and s: "truthy (sessionId u)"
  shows "\<exists>r. probe_request u = Inr r \<and>
           promise (run probe_request resume [] (executor probe_request u)) = None \<and>
           sent (client (run probe_request resume [] (executor probe_request u))) =
             sent u @ [r] \<and>
           (\<exists>rest. sent (client (run probe_request resume evs (executor probe_request u))) =
                     sent u @ r # rest)"
proof -
  from pr s obtain r where r: "probe_request u = Inr r"
    unfolding probes_def by blast
  obtain rest where
    "sent (client (run probe_request resume evs (executor probe_request u))) =
       sent (client (executor probe_request u)) @ rest"
    using sent_run [OF d] by blast
  with executor_request [of probe_request u r, OF r] r show ?thesis by simp
qed

lemma first_answer_timeout:
  assumes pr: "probes probe_request" and s: "truthy (sessionId u)" and n: "n \<le> 0"
    and pend: "\<forall>q. resume x q =
                 (if n \<le> attempts q then reject polling_timeout (clearInterval q) else q)"
  shows "promise (run probe_request resume [Answered x] (executor probe_request u)) =
           Some (Rejected polling_timeout) \<and>
         attempts (run probe_request resume [Answered x] (executor probe_request u)) = 1 \<and>
         (\<exists>r. probe_request u = Inr r \<and>
              sent (client (run probe_request resume [Answered x] (executor probe_request u))) =
                sent u @ [r])"
proof -
  from pr s obtain r where r: "probe_request u = Inr r"
    unfolding probes_def by blast
  show ?thesis
    using executor_request [of probe_request u r, OF r] r n pend
    by (simp add: reject_def clearInterval_def)
qed

lemma loggedIn_first:
  "truthy (sessionId u) \<Longrightarrow>
   \<exists>r. getSessionIdState_request u = Inr r \<and>
       promise (waitForLoggedIn m [] u) = None \<and>
       sent (client (waitForLoggedIn m [] u)) = sent u @ [r] \<and>
       (\<exists>rest. sent (client (waitForLoggedIn m evs u)) = sent u @ r # rest)"
  unfolding waitForLoggedIn_def
  by (rule first_probe_sent [OF decides_checkSessionIdState probes_session])

lemma uploaded_first:
  "truthy (sessionId u) \<Longrightarrow>
   \<exists>r. getFileState_request fileIds u = Inr r \<and>
       promise (waitForFilesUploaded fileIds m [] u) = None \<and>
       sent (client (waitForFilesUploaded fileIds m [] u)) = sent u @ [r] \<and>
       (\<exists>rest. sent (client (waitForFilesUploaded fileIds m evs u)) = sent u @ r # rest)"
  unfolding waitForFilesUploaded_def
  by (rule first_probe_sent [OF decides_checkFileStates_uploaded probes_upload])

lemma revoked_first:
  "truthy (sessionId u) \<Longrightarrow>
   \<exists>r. getFileRevokeState_request fileIds u = Inr r \<and>
       promise (waitForFilesRevoked fileIds m [] u) = None \<and>
       sent (client (waitForFilesRevoked fileIds m [] u)) = sent u @ [r] \<and>
       (\<exists>rest. sent (client (waitForFilesRevoked fileIds m evs u)) = sent u @ r # rest)"
  unfolding waitForFilesRevoked_def
  by (rule first_probe_sent [OF decides_checkFileStates_revoked probes_revoke])

lemma no_session_first:
  assumes "\<not> truthy (sessionId u)"
  shows "attempts (waitForLoggedIn m [] u) = 1 \<and>
         promise (waitForLoggedIn m [] u) = Some (Rejected (Error ''no session id'')) \<and>
         sent (client (waitForLoggedIn m [] u)) = sent u"
    and "attempts (waitForFilesUploaded fileIds m [] u) = 1 \<and>
         promise (waitForFilesUploaded fileIds m [] u) =
           Some (Rejected (Error ''no session id'')) \<and>
         sent (client (waitForFilesUploaded fileIds m [] u)) = sent u"
    and "attempts (waitForFilesRevoked fileIds m [] u) = 1 \<and>
         promise (waitForFilesRevoked fileIds m [] u) =
           Some (Rejected (Error ''no session id'')) \<and>
         sent (client (waitForFilesRevoked fileIds m [] u)) = sent u"
  using assms
        executor_throws [of getSessionIdState_request u no_session_id]
        executor_throws [of "getFileState_request fileIds" u no_session_id]
        executor_throws [of "getFileRevokeState_request fileIds" u no_session_id]
  by (simp_all add: waitForLoggedIn_def waitForFilesUploaded_def waitForFilesRevoked_def
        getSessionIdState_request_def getFileState_request_def
        getFileRevokeState_request_def no_session_id_def)

lemma at_least_one_attempt:
  "1 \<le> attempts (waitForLoggedIn m evs u)"
  "1 \<le> attempts (waitForFilesUploaded fileIds m fvs u)"
  "1 \<le> attempts (waitForFilesRevoked fileIds m fvs u)"
  unfolding waitForLoggedIn_def waitForFilesUploaded_def waitForFilesRevoked_def
  using attempts_run [OF decides_checkSessionIdState, of "executor getSessionIdState_request u"]
        attempts_run [OF decides_checkFileStates_uploaded,
          of "executor (getFileState_request fileIds) u"]
        attempts_run [OF decides_checkFileStates_revoked,
          of "executor (getFileRevokeState_request fileIds) u"]
  by (simp_all add: attempts_executor)

lemma loggedIn_zero_budget:
  "truthy (sessionId u) \<Longrightarrow> n \<le> 0 \<Longrightarrow> session_pending a \<Longrightarrow>
   promise (waitForLoggedIn (Some (Finite n)) [Answered a] u) =
     Some (Rejected polling_timeout) \<and>
   attempts (waitForLoggedIn (Some (Finite n)) [Answered a] u) = 1 \<and>
   (\<exists>r. getSessionIdState_request u = Inr r \<and>
        sent (client (waitForLoggedIn (Some (Finite n)) [Answered a] u)) = sent u @ [r])"
  unfolding waitForLoggedIn_def option.case
  by (rule first_answer_timeout [OF probes_session, where n = n and x = a])
     (simp_all add: session_pending_resume)

lemma uploaded_zero_budget:
  "truthy (sessionId u) \<Longrightarrow> n \<le> 0 \<Longrightarrow> upload_pending b \<Longrightarrow>
   promise (waitForFilesUploaded fileIds (Some (Finite n)) [Answered b] u) =
     Some (Rejected polling_timeout) \<and>
   attempts (waitForFilesUploaded fileIds (Some (Finite n)) [Answered b] u) = 1 \<and>
   (\<exists>r. getFileState_request fileIds u = Inr r \<and>
        sent (client (waitForFilesUploaded fileIds (Some (Finite n)) [Answered b] u)) =
          sent u @ [r])"
  unfolding waitForFilesUploaded_def option.case
  by (rule first_answer_timeout [OF probes_upload, where n = n and x = b])
     (simp_all add: upload_pending_resume)

lemma revoked_zero_budget:
  "truthy (sessionId u) \<Longrightarrow> n \<le> 0 \<Longrightarrow> revoke_pending b \<Longrightarrow>
   promise (waitForFilesRevoked fileIds (Some (Finite n)) [Answered b] u) =
     Some (Rejected polling_timeout) \<and>
   attempts (waitForFilesRevoked fileIds (Some (Finite n)) [Answered b] u) = 1 \<and>
   (\<exists>r. getFileRevokeState_request fileIds u = Inr r \<and>
        sent (client (waitForFilesRevoked fileIds (Some (Finite n)) [Answered b] u)) =
          sent u @ [r])"
  unfolding waitForFilesRevoked_def option.case
  by (rule first_answer_timeout [OF probes_revoke, where n = n and x = b])
     (simp_all add: revoke_pending_resume)

text \<open>
  Claim C10, as the code has it. Each of the three polling operations has called its
  probe once when it returns its promise, whatever \<^verbatim>\<open>maxAttempts\<close> is: on a client with
  a session the request of that probe has been sent and the promise is pending (a probe
  called without a session throws before sending, and the promise rejects with its
  error). In every state of every run at least one probe has been made, and that first
  request stays at the head of what the operation has sent. The budget is read only when
  an answer is handled: with \<^verbatim>\<open>maxAttempts\<close> zero or negative, the first answer handled
  that is neither success nor failure rejects the promise with
  \<^verbatim>\<open>Error('Polling timeout')\<close>. Exactly one probe has been made and one request sent at
  that moment when the answer arrives before the timer fires again.
\<close>

theorem first_probe_precedes_budget:
  "(truthy (sessionId u) \<longrightarrow>
      (\<exists>r. getSessionIdState_request u = Inr r \<and>
           promise (waitForLoggedIn m [] u) = None \<and>
           sent (client (waitForLoggedIn m [] u)) = sent u @ [r] \<and>
           (\<exists>rest. sent (client (waitForLoggedIn m evs u)) = sent u @ r # rest))) \<and>
   (\<not> truthy (sessionId u) \<longrightarrow>
      attempts (waitForLoggedIn m [] u) = 1 \<and>
      promise (waitForLoggedIn m [] u) = Some (Rejected (Error ''no session id'')) \<and>
      sent (client (waitForLoggedIn m [] u)) = sent u) \<and>
   1 \<le> attempts (waitForLoggedIn m evs u) \<and>
   (truthy (sessionId u) \<and> n \<le> 0 \<and> session_pending a \<longrightarrow>
      promise (waitForLoggedIn (Some (Finite n)) [Answered a] u) =
        Some (Rejected (Error ''Polling timeout'')) \<and>
      attempts (waitForLoggedIn (Some (Finite n)) [Answered a] u) = 1 \<and>
      (\<exists>r. getSessionIdState_request u = Inr r \<and>
           sent (client (waitForLoggedIn (Some (Finite n)) [Answered a] u)) = sent u @ [r])) \<and>
   (n \<le> 0 \<and> session_pending a \<and>
    promise (waitForLoggedIn (Some (Finite n)) evs u) = None \<and>
    0 < outstanding (waitForLoggedIn (Some (Finite n)) evs u) \<longrightarrow>
      promise (waitForLoggedIn (Some (Finite n)) (evs @ [Answered a]) u) =
        Some (Rejected (Error ''Polling timeout''))) \<and>
   (truthy (sessionId u) \<longrightarrow>
      (\<exists>r. getFileState_request fileIds u = Inr r \<and>
           promise (waitForFilesUploaded fileIds m [] u) = None \<and>
           sent (client (waitForFilesUploaded fileIds m [] u)) = sent u @ [r] \<and>
           (\<exists>rest. sent (client (waitForFilesUploaded fileIds m fvs u)) = sent u @ r # rest))) \<and>
   (\<not> truthy (sessionId u) \<longrightarrow>
      attempts (waitForFilesUploaded fileIds m [] u) = 1 \<and>
      promise (waitForFilesUploaded fileIds m [] u) = Some (Rejected (Error ''no session id'')) \<and>
      sent (client (waitForFilesUploaded fileIds m [] u)) = sent u) \<and>
   1 \<le> attempts (waitForFilesUploaded fileIds m fvs u) \<and>
   (truthy (sessionId u) \<and> n \<le> 0 \<and> upload_pending b \<longrightarrow>
      promise (waitForFilesUploaded fileIds (Some (Finite n)) [Answered b] u) =
        Some (Rejected (Error ''Polling timeout'')) \<and>
      attempts (waitForFilesUploaded fileIds (Some (Finite n)) [Answered b] u) = 1 \<and>
      (\<exists>r. getFileState_request fileIds u = Inr r \<and>
           sent (client (waitForFilesUploaded fileIds (Some (Finite n)) [Answered b] u)) = sent u @ [r])) \<and>
   (n \<le> 0 \<and> upload_pending b \<and>
    promise (waitForFilesUploaded fileIds (Some (Finite n)) fvs u) = None \<and>
    0 < outstanding (waitForFilesUploaded fileIds (Some (Finite n)) fvs u) \<longrightarrow>
      promise (waitForFilesUploaded fileIds (Some (Finite n)) (fvs @ [Answered b]) u) =
        Some (Rejected (Error ''Polling timeout''))) \<and>
   (truthy (sessionId u) \<longrightarrow>
      (\<exists>r. getFileRevokeState_request fileIds u = Inr r \<and>
           promise (waitForFilesRevoked fileIds m [] u) = None \<and>
           sent (client (waitForFilesRevoked fileIds m [] u)) = sent u @ [r] \<and>
           (\<exists>rest. sent (client (waitForFilesRevoked fileIds m fvs u)) = sent u @ r # rest))) \<and>
   (\<not> truthy (sessionId u) \<longrightarrow>
      attempts (waitForFilesRevoked fileIds m [] u) = 1 \<and>
      promise (waitForFilesRevoked fileIds m [] u) = Some (Rejected (Error ''no session id'')) \<and>
      sent (client (waitForFilesRevoked fileIds m [] u)) = sent u) \<and>
   1 \<le> attempts (waitForFilesRevoked fileIds m fvs u) \<and>
   (truthy (sessionId u) \<and> n \<le> 0 \<and> revoke_pending b \<longrightarrow>
      promise (waitForFilesRevoked fileIds (Some (Finite n)) [Answered b] u) =
        Some (Rejected (Error ''Polling timeout'')) \<and>
      attempts (waitForFilesRevoked fileIds (Some (Finite n)) [Answered b] u) = 1 \<and>
      (\<exists>r. getFileRevokeState_request fileIds u = Inr r \<and>
           sent (client (waitForFilesRevoked fileIds (Some (Finite n)) [Answered b] u)) = sent u @ [r])) \<and>
   (n \<le> 0 \<and> revoke_pending b \<and>
    promise (waitForFilesRevoked fileIds (Some (Finite n)) fvs u) = None \<and>
    0 < outstanding (waitForFilesRevoked fileIds (Some (Finite n)) fvs u) \<longrightarrow>
      promise (waitForFilesRevoked fileIds (Some (Finite n)) (fvs @ [Answered b]) u) =
        Some (Rejected (Error ''Polling timeout'')))"
  using loggedIn_first [of u m evs] uploaded_first [of u fileIds m fvs]
        revoked_first [of u fileIds m fvs] no_session_first(1) [of u m]
        no_session_first(2) [of u fileIds m] no_session_first(3) [of u fileIds m]
        at_least_one_attempt(1) [of m evs u] at_least_one_attempt(2) [of fileIds m fvs u]
        at_least_one_attempt(3) [of fileIds m fvs u]
        loggedIn_zero_budget [of u n a] uploaded_zero_budget [of u n b fileIds]
        revoked_zero_budget [of u n b fileIds]
        loggedIn_late [of n a evs u] uploaded_late [of n b fileIds fvs u]
        revoked_late [of n b fileIds fvs u]
  unfolding polling_timeout_def
  by simp

theorem first_probe_precedes_budget_witness:
  "promise (waitForLoggedIn (Some (Finite 0)) [] ((Uhale None)\<lparr>sessionId := Some ''s''\<rparr>)) = None \<and>
   length (sent (client (waitForLoggedIn (Some (Finite 0)) [] ((Uhale None)\<lparr>sessionId := Some ''s''\<rparr>)))) = 1 \<and>
   promise (waitForLoggedIn (Some (Finite 0)) [Answered (Replies \<lparr>errorCode = Some ''0'', errorMsg = [], data = Some ''1''\<rparr>)] ((Uhale None)\<lparr>sessionId := Some ''s''\<rparr>)) =
     Some (Rejected (Error ''Polling timeout'')) \<and>
   attempts (waitForLoggedIn (Some (Finite 0)) [Answered (Replies \<lparr>errorCode = Some ''0'', errorMsg = [], data = Some ''1''\<rparr>)] ((Uhale None)\<lparr>sessionId := Some ''s''\<rparr>)) = 1 \<and>
   length (sent (client (waitForLoggedIn (Some (Finite 0)) [Answered (Replies \<lparr>errorCode = Some ''0'', errorMsg = [], data = Some ''1''\<rparr>)] ((Uhale None)\<lparr>sessionId := Some ''s''\<rparr>)))) = 1 \<and>
   promise (waitForFilesUploaded [''f''] (Some (Finite (- 1))) [Answered (Replies \<lparr>errorCode = Some ''0'', errorMsg = [], data = [(''f'', Some ''1'')]\<rparr>)] ((Uhale None)\<lparr>sessionId := Some ''s''\<rparr>)) =
     Some (Rejected (Error ''Polling timeout'')) \<and>
   promise (waitForFilesRevoked [''f''] (Some (Finite 0)) ([Elapsed] @ [Answered (Replies \<lparr>errorCode = Some ''0'', errorMsg = [], data = [(''f'', Some ''1'')]\<rparr>)]) ((Uhale None)\<lparr>sessionId := Some ''s''\<rparr>)) =
     Some (Rejected (Error ''Polling timeout'')) \<and>
   promise (waitForLoggedIn (Some (Finite 0)) [] (Uhale None)) =
     Some (Rejected (Error ''no session id''))"
  using first_probe_precedes_budget
          [where u = "((Uhale None)\<lparr>sessionId := Some ''s''\<rparr>)" and n = 0 and a = "(Replies \<lparr>errorCode = Some ''0'', errorMsg = [], data = Some ''1''\<rparr>)" and b = "(Replies \<lparr>errorCode = Some ''0'', errorMsg = [], data = [(''f'', Some ''1'')]\<rparr>)" and m = "Some (Finite 0)"
             and fileIds = "[''f'']" and evs = "[Elapsed]" and fvs = "[Elapsed]"]
        first_probe_precedes_budget
          [where u = "((Uhale None)\<lparr>sessionId := Some ''s''\<rparr>)" and n = "- 1" and a = "(Replies \<lparr>errorCode = Some ''0'', errorMsg = [], data = Some ''1''\<rparr>)" and b = "(Replies \<lparr>errorCode = Some ''0'', errorMsg = [], data = [(''f'', Some ''1'')]\<rparr>)" and m = "Some (Finite 0)"
             and fileIds = "[''f'']" and evs = "[Elapsed]" and fvs = "[Elapsed]"]
        first_probe_precedes_budget
          [where u = "Uhale None" and n = 0 and a = "(Replies \<lparr>errorCode = Some ''0'', errorMsg = [], data = Some ''1''\<rparr>)" and b = "(Replies \<lparr>errorCode = Some ''0'', errorMsg = [], data = [(''f'', Some ''1'')]\<rparr>)"
             and m = "Some (Finite 0)" and fileIds = "[''f'']" and evs = "[]" and fvs = "[]"]
  by (simp add: waitForLoggedIn_def waitForFilesUploaded_def waitForFilesRevoked_def
        executor_def call_probe_def getSessionIdState_request_def getFileState_request_def
        getFileRevokeState_request_def getSessionIdState_result_def getFileState_result_def
        getFileRevokeState_result_def respond_def session_state_def file_state_def
        revoke_state_def property_def session_states_def file_states_def revoke_states_def
        object_prototype_keys_def nullish_def received_def checkSessionIdState_def
        checkFileStates_uploaded_def checkFileStates_revoked_def reject_def resolve_def
        clearInterval_def polling_timeout_def no_session_id_def truthy_def Uhale_def send_def
        session_pending_def upload_pending_def revoke_pending_def)

text \<open>
  Claim C10 as stated fails when the first answer is slower than the timer: with
  \<^verbatim>\<open>maxAttempts = 0\<close> the timer starts a second probe before the first answer arrives,
  so the timeout follows two probes, not one.
\<close>

theorem zero_budget_slow_answer:
  "promise (waitForLoggedIn (Some (Finite 0)) [Elapsed, Answered (Replies \<lparr>errorCode = Some ''0'', errorMsg = [], data = Some ''1''\<rparr>)] ((Uhale None)\<lparr>sessionId := Some ''s''\<rparr>)) =
     Some (Rejected (Error ''Polling timeout'')) \<and>
   attempts (waitForLoggedIn (Some (Finite 0)) [Elapsed, Answered (Replies \<lparr>errorCode = Some ''0'', errorMsg = [], data = Some ''1''\<rparr>)] ((Uhale None)\<lparr>sessionId := Some ''s''\<rparr>)) = 2 \<and>
   length (sent (client (waitForLoggedIn (Some (Finite 0)) [Elapsed, Answered (Replies \<lparr>errorCode = Some ''0'', errorMsg = [], data = Some ''1''\<rparr>)] ((Uhale None)\<lparr>sessionId := Some ''s''\<rparr>)))) = 2"
  by (simp add: waitForLoggedIn_def waitForFilesUploaded_def waitForFilesRevoked_def
        executor_def call_probe_def getSessionIdState_request_def getFileState_request_def
        getFileRevokeState_request_def getSessionIdState_result_def getFileState_result_def
        getFileRevokeState_result_def respond_def session_state_def file_state_def
        revoke_state_def property_def session_states_def file_states_def revoke_states_def
        object_prototype_keys_def nullish_def received_def checkSessionIdState_def
        checkFileStates_uploaded_def checkFileStates_revoked_def reject_def resolve_def
        clearInterval_def polling_timeout_def no_session_id_def truthy_def Uhale_def send_def
        session_pending_def upload_pending_def revoke_pending_def)
section \<open>Uploading a file\<close>

text \<open>
  Claim C9. In \<^verbatim>\<open>uploadFile\<close>, on a client with a session and after a presigned
  descriptor has been obtained, the outcome does not depend on the status of the response
  to the raw PUT: for every status the method does what it does for status 200. It sends
  the \<^verbatim>\<open>saveUploadedFile\<close> request right after the PUT and, when that call succeeds, runs
  the upload-confirmation poll for the minted file identifier.
\<close>

theorem put_response_ignored:
  assumes "truthy (sessionId u)"
    and "respond presigned = Inr (UhalePresignedUrl awsUploadUrl fileUrl fileId)"
  shows "uploadFile t isImage content fileSize terminalId subject presigned (PutResponds status)
           saved evs u =
         uploadFile t isImage content fileSize terminalId subject presigned (PutResponds 200)
           saved evs u \<and>
         (\<exists>r u3.
            sent u3 = sent u @ [r, put_request awsUploadUrl content,
                                saveUploadedFile_request fileUrl fileId (default subject [])
                                  (case fileSize of None \<Rightarrow> int (length content) | Some n \<Rightarrow> n)
                                  terminalId u] \<and>
            uploadFile t isImage content fileSize terminalId subject presigned (PutResponds status)
              saved evs u =
              (case respond saved of
                 Inl e \<Rightarrow> (Some (Inl e), u3)
               | Inr d \<Rightarrow> (awaited (waitForFilesUploaded [fileId] None evs u3) fileId,
                           client (waitForFilesUploaded [fileId] None evs u3))))"
proof -
  let ?n = "case fileSize of None \<Rightarrow> int (length content) | Some n \<Rightarrow> n"
  let ?r = "getPresignedUrl_request t isImage ?n terminalId None u"
  let ?u2 = "send (put_request awsUploadUrl content) (send ?r u)"
  let ?save = "saveUploadedFile_request fileUrl fileId (default subject []) ?n terminalId"
  let ?u3 = "send (?save ?u2) ?u2"
  have same: "?save ?u2 = ?save u"
    by (simp add: saveUploadedFile_request_def send_def)
  have session: "truthy (sessionId ?u2)"
    using assms(1) by (simp add: send_def)
  have run: "uploadFile t isImage content fileSize terminalId subject presigned (PutResponds st)
               saved evs u =
             (case respond saved of
                Inl e \<Rightarrow> (Some (Inl e), ?u3)
              | Inr d \<Rightarrow> (awaited (waitForFilesUploaded [fileId] None evs ?u3) fileId,
                          client (waitForFilesUploaded [fileId] None evs ?u3)))" for st
    using assms session
    by (simp add: uploadFile_def getPresignedUrl_def saveUploadedFile_def priv_callApi_def
          Let_def split: sum.splits)
  have log: "sent ?u3 = sent u @ [?r, put_request awsUploadUrl content, ?save u]"
    unfolding same by (simp add: send_def)
  show ?thesis
    using run [of status] run [of 200] log by metis
qed

theorem put_response_ignored_witness:
  "uploadFile ''t'' True ''bytes'' None ''term'' None (Replies \<lparr>errorCode = Some ''0'', errorMsg = [],
              data = UhalePresignedUrl ''https://bucket/put'' ''https://cdn/f.jpg'' ''f''\<rparr>) (PutResponds 500) (Replies \<lparr>errorCode = Some ''0'', errorMsg = [], data = ''ok''\<rparr>) [Answered (Replies \<lparr>errorCode = Some ''0'', errorMsg = [], data = [(''f'', Some ''2'')]\<rparr>)] ((Uhale None)\<lparr>sessionId := Some ''s''\<rparr>) =
     uploadFile ''t'' True ''bytes'' None ''term'' None (Replies \<lparr>errorCode = Some ''0'', errorMsg = [],
              data = UhalePresignedUrl ''https://bucket/put'' ''https://cdn/f.jpg'' ''f''\<rparr>) (PutResponds 200) (Replies \<lparr>errorCode = Some ''0'', errorMsg = [], data = ''ok''\<rparr>) [Answered (Replies \<lparr>errorCode = Some ''0'', errorMsg = [], data = [(''f'', Some ''2'')]\<rparr>)] ((Uhale None)\<lparr>sessionId := Some ''s''\<rparr>) \<and>
   fst (uploadFile ''t'' True ''bytes'' None ''term'' None (Replies \<lparr>errorCode = Some ''0'', errorMsg = [],
              data = UhalePresignedUrl ''https://bucket/put'' ''https://cdn/f.jpg'' ''f''\<rparr>) (PutResponds 500) (Replies \<lparr>errorCode = Some ''0'', errorMsg = [], data = ''ok''\<rparr>)
          [Answered (Replies \<lparr>errorCode = Some ''0'', errorMsg = [], data = [(''f'', Some ''2'')]\<rparr>)] ((Uhale None)\<lparr>sessionId := Some ''s''\<rparr>)) = Some (Inr ''f'')"
  using put_response_ignored
          [where u = "((Uhale None)\<lparr>sessionId := Some ''s''\<rparr>)" and presigned = "(Replies \<lparr>errorCode = Some ''0'', errorMsg = [],
              data = UhalePresignedUrl ''https://bucket/put'' ''https://cdn/f.jpg'' ''f''\<rparr>)" and awsUploadUrl = "''https://bucket/put''"
             and fileUrl = "''https://cdn/f.jpg''" and fileId = "''f''" and t = "''t''"
             and isImage = True and content = "''bytes''" and fileSize = None
             and terminalId = "''term''" and subject = None and status = 500 and saved = "(Replies \<lparr>errorCode = Some ''0'', errorMsg = [], data = ''ok''\<rparr>)"
             and evs = "[Answered (Replies \<lparr>errorCode = Some ''0'', errorMsg = [], data = [(''f'', Some ''2'')]\<rparr>)]"]
  by (simp add: uploadFile_def getPresignedUrl_def saveUploadedFile_def priv_callApi_def
        awaited_def waitForLoggedIn_def waitForFilesUploaded_def waitForFilesRevoked_def
        executor_def call_probe_def getSessionIdState_request_def getFileState_request_def
        getFileRevokeState_request_def getSessionIdState_result_def getFileState_result_def
        getFileRevokeState_result_def respond_def session_state_def file_state_def
        revoke_state_def property_def session_states_def file_states_def revoke_states_def
        object_prototype_keys_def nullish_def received_def checkSessionIdState_def
        checkFileStates_uploaded_def checkFileStates_revoked_def reject_def resolve_def
        clearInterval_def polling_timeout_def truthy_def Uhale_def send_def
        session_pending_def upload_pending_def revoke_pending_def)

end
